theory Spec2Isabelle
  imports Main "HOL-Library.Word" "HOL-Library.Sublist"
begin

section \<open>Initial node synchronisation of pglogical (pglogical\_init\_replica.c)\<close>

text \<open>
  The C file drives two remote database sessions, two external tools and the local
  catalog. Every call that leaves the file is an \<^emph>\<open>event\<close>; a function of the file is
  modelled as a function from the history of events so far to the events it adds and
  its outcome, which is either a value or the error (\<open>elog\<close>/\<open>ereport\<close> at level
  \<open>ERROR\<close> or \<open>FATAL\<close>) that left it. What the outside answers is read from a
  \<open>world\<close> record, whose answers may depend on the whole history.
\<close>

subsection \<open>Characters the C string literals escape\<close>

definition dq :: string where
  "dq = [CHR 0x22]"

definition sq :: string where
  "sq = [CHR 0x27]"

definition nl :: string where
  "nl = [CHR 0x0A]"

subsection \<open>Data of the C file and of the headers it includes\<close>

datatype elevel = INFO | WARNING | ERROR | FATAL

text \<open>
  An error that leaves a function: \<open>ereport(level, errmsg, errdetail)\<close>, or the
  dereference of a NULL pointer (\<open>Segfault\<close>), which the C code does not guard
  against where it passes the result of \<open>last_dir_separator\<close> or of \<open>PQgetvalue\<close> on.
\<close>

datatype failure = Ereport (elevel: elevel) (errmsg: string) (errdetail: "string option")
  | Segfault

datatype node_status = NODE_STATUS_INIT | NODE_STATUS_SYNC_SCHEMA | NODE_STATUS_SLOTS
  | NODE_STATUS_CATCHUP | NODE_STATUS_CONNECT_BACK | NODE_STATUS_READY
  | NODE_STATUS_OTHER char

datatype node_role = NODE_ROLE_SUBSCRIBER | NODE_ROLE_OTHER char

record PGLogicalNode =
  node_id :: int
  node_name :: string
  node_dsn :: string
  node_role :: node_role
  node_status :: node_status

record PGLogicalRepSet =
  repset_name :: string

record PGLogicalConnection =
  origin :: PGLogicalNode
  target :: PGLogicalNode
  replication_sets :: "PGLogicalRepSet list"

datatype PGconn = PGconn nat

datatype ExecStatusType = PGRES_EMPTY_QUERY | PGRES_COMMAND_OK | PGRES_TUPLES_OK
  | PGRES_COPY_OUT | PGRES_COPY_IN | PGRES_BAD_RESPONSE | PGRES_NONFATAL_ERROR
  | PGRES_FATAL_ERROR | PGRES_COPY_BOTH | PGRES_SINGLE_TUPLE

record PGresult =
  resultStatus :: ExecStatusType
  resultErrorMessage :: string
  tuples :: "string list list"

text \<open>What \<open>popen(cmd, "r")\<close> followed by one \<open>fgets\<close> gives.\<close>

datatype pipe_output = PopenNull | FgetsNull | FgetsLine string

type_synonym XLogRecPtr = "64 word"

type_synonym RepOriginId = "16 word"

datatype event =
    EvElog elevel string
  | EvFindMyExec string int string
  | EvPopen string pipe_output
  | EvSystem string int
  | EvPQconnectdb string PGconn bool
  | EvPQexec PGconn string PGresult
  | EvPQgetCopyData PGconn int string
  | EvPQputCopyData PGconn string int
  | EvPQputCopyEnd PGconn int
  | EvPQfinish PGconn
  | EvStartTransactionCommand
  | EvCommitTransactionCommand
  | EvReplorigin_by_name string RepOriginId
  | EvReplorigin_create string RepOriginId
  | EvReplorigin_advance RepOriginId XLogRecPtr XLogRecPtr bool bool
  | EvSet_node_status int node_status
  | EvSet_remote_node_status PGconn string node_status

text \<open>
  The outside of the file. The first block are constants of the build and globals of
  the backend, the second functions of PostgreSQL and libpq that compute on their
  arguments only, the third the answers of the operating system, of the two servers
  and of the catalog, each a function of the history. A table's \<open>COPY ... TO stdout\<close>
  stream is finite: \<open>PQgetCopyData_stream\<close> gives the rows that the successive calls
  of \<open>PQgetCopyData\<close> return and the negation of the non-positive value that ends
  them (1 for the regular end -1, 2 for the error -2). The two escaping functions
  are total: their NULL result, for text that is invalid in the encoding of the
  session, is not modelled. The calls into the backend (the transaction commands,
  the replication origins, the node status) return normally.
\<close>

record world =
  MAXPGPATH :: nat
  EXE :: string
  PG_VERSION_NUM :: nat
  EXTENSION_NAME :: string
  my_exec_path :: string
  canonicalize_path :: "string \<Rightarrow> string"
  gen_slot_name :: "string \<Rightarrow> PGLogicalNode \<Rightarrow> PGLogicalNode \<Rightarrow> string"
  pg_lsn_in :: "string \<Rightarrow> failure + XLogRecPtr"
  PQescapeIdentifier :: "PGconn \<Rightarrow> string \<Rightarrow> string"
  PQescapeLiteral :: "PGconn \<Rightarrow> string \<Rightarrow> string"
  get_database_name :: "event list \<Rightarrow> string"
  XactLastCommitEnd :: "event list \<Rightarrow> XLogRecPtr"
  find_my_exec :: "event list \<Rightarrow> string \<Rightarrow> int \<times> string"
  popen_fgets :: "event list \<Rightarrow> string \<Rightarrow> pipe_output"
  system :: "event list \<Rightarrow> string \<Rightarrow> int"
  strerror_errno :: "event list \<Rightarrow> string"
  interrupt_pending :: "event list \<Rightarrow> failure option"
  PQconnectdb :: "event list \<Rightarrow> string \<Rightarrow> PGconn \<times> bool"
  PQerrorMessage :: "event list \<Rightarrow> PGconn \<Rightarrow> string"
  PQexec :: "event list \<Rightarrow> PGconn \<Rightarrow> string \<Rightarrow> PGresult"
  PQgetCopyData_stream :: "event list \<Rightarrow> PGconn \<Rightarrow> string list \<times> nat"
  PQputCopyData :: "event list \<Rightarrow> PGconn \<Rightarrow> string \<Rightarrow> int"
  PQputCopyEnd :: "event list \<Rightarrow> PGconn \<Rightarrow> int"
  replorigin_by_name :: "event list \<Rightarrow> string \<Rightarrow> RepOriginId"
  replorigin_create :: "event list \<Rightarrow> string \<Rightarrow> RepOriginId"

subsection \<open>Sequencing: events and errors\<close>

type_synonym 'a io = "event list \<Rightarrow> event list \<times> (failure + 'a)"

definition ret :: "'a \<Rightarrow> 'a io" where
  "ret x = (\<lambda>h. ([], Inr x))"

definition raise :: "failure \<Rightarrow> 'a io" where
  "raise f = (\<lambda>h. ([], Inl f))"

definition emit :: "event \<Rightarrow> unit io" where
  "emit ev = (\<lambda>h. ([ev], Inr ()))"

text \<open>An answer of the world at the current history, with the event that records it.\<close>

definition call :: "(event list \<Rightarrow> 'a) \<Rightarrow> ('a \<Rightarrow> event list) \<Rightarrow> 'a io" where
  "call answer evs = (\<lambda>h. (evs (answer h), Inr (answer h)))"

text \<open>
  \<open>bindE m f\<close> runs \<open>m\<close>, and \<open>f\<close> on its value after the events of \<open>m\<close>; an error
  of \<open>m\<close> ends the run there, as \<open>elog(ERROR)\<close> leaves every caller.
\<close>

definition bindE :: "'a io \<Rightarrow> ('a \<Rightarrow> 'b io) \<Rightarrow> 'b io" where
  "bindE m f = (\<lambda>h. case m h of
      (e1, Inl x) \<Rightarrow> (e1, Inl x)
    | (e1, Inr a) \<Rightarrow> (case f a (h @ e1) of (e2, r) \<Rightarrow> (e1 @ e2, r)))"

text \<open>
  \<open>ereport(level, (errmsg(msg), errdetail(detail)))\<close>: below \<open>ERROR\<close> a line of the
  log, from \<open>ERROR\<close> on the end of the run. \<open>elog(level, msg)\<close> has no detail.
\<close>

definition ereport :: "elevel \<Rightarrow> string \<Rightarrow> string option \<Rightarrow> unit io" where
  "ereport lev msg detail = (case lev of
      INFO \<Rightarrow> emit (EvElog INFO msg)
    | WARNING \<Rightarrow> emit (EvElog WARNING msg)
    | ERROR \<Rightarrow> raise (Ereport ERROR msg detail)
    | FATAL \<Rightarrow> raise (Ereport FATAL msg detail))"

definition elog :: "elevel \<Rightarrow> string \<Rightarrow> unit io" where
  "elog lev msg = ereport lev msg None"

definition CHECK_FOR_INTERRUPTS :: "world \<Rightarrow> unit io" where
  "CHECK_FOR_INTERRUPTS w = (\<lambda>h. case interrupt_pending w h of
      None \<Rightarrow> ([], Inr ())
    | Some f \<Rightarrow> ([], Inl f))"

subsection \<open>Formatting and scanning of the C library\<close>

text \<open>\<open>%d\<close> of \<open>printf\<close>.\<close>

fun dec_nat :: "nat \<Rightarrow> string" where
  "dec_nat n = (if n < 10 then [''0123456789'' ! n]
                else dec_nat (n div 10) @ [''0123456789'' ! (n mod 10)])"

declare dec_nat.simps [simp del]

definition fmt_d :: "int \<Rightarrow> string" where
  "fmt_d i = (if i < 0 then ''-'' @ dec_nat (nat (- i)) else dec_nat (nat i))"

text \<open>
  \<open>sscanf(line, "%*s %*s %d.%d", &pre_dot, &post_dot) == 2\<close>: two words are skipped,
  then two decimal integers around a dot are read; white space is skipped before
  each conversion. The values are C \<open>int\<close>s, kept as 32-bit words.
\<close>

definition isspace :: "char \<Rightarrow> bool" where
  "isspace c = (c \<in> set [CHR 0x20, CHR 0x09, CHR 0x0A, CHR 0x0B, CHR 0x0C, CHR 0x0D])"

definition isdigit :: "char \<Rightarrow> bool" where
  "isdigit c = (c \<in> set ''0123456789'')"

definition digit_val :: "char \<Rightarrow> nat" where
  "digit_val c = length (takeWhile (\<lambda>d. d \<noteq> c) ''0123456789'')"

definition scan_skip_s :: "string \<Rightarrow> string option" where
  "scan_skip_s s = (let t = dropWhile isspace s in
     if t = [] then None else Some (dropWhile (\<lambda>c. \<not> isspace c) t))"

definition scan_d :: "string \<Rightarrow> (32 word \<times> string) option" where
  "scan_d s = (let t = dropWhile isspace s;
                   neg = (t \<noteq> [] \<and> hd t = CHR ''-'');
                   u = (if t \<noteq> [] \<and> (hd t = CHR ''-'' \<or> hd t = CHR ''+'') then tl t else t);
                   ds = takeWhile isdigit u;
                   v = foldl (\<lambda>acc c. acc * 10 + digit_val c) 0 ds
     in if ds = [] then None
        else Some (if neg then - word_of_nat v else word_of_nat v, dropWhile isdigit u))"

definition sscanf_version :: "string \<Rightarrow> (32 word \<times> 32 word) option" where
  "sscanf_version line = (case scan_skip_s line of None \<Rightarrow> None | Some r1 \<Rightarrow>
     (case scan_skip_s r1 of None \<Rightarrow> None | Some r2 \<Rightarrow>
     (case scan_d r2 of None \<Rightarrow> None | Some (pre_dot, r3) \<Rightarrow>
     (case r3 of [] \<Rightarrow> None | c # r4 \<Rightarrow>
        if c \<noteq> CHR ''.'' then None
        else (case scan_d r4 of None \<Rightarrow> None | Some (post_dot, r5) \<Rightarrow>
          Some (pre_dot, post_dot))))))"

subsection \<open>find\_other\_exec\_version, dump\_structure, restore\_structure\<close>

text \<open>
  \<open>last_dir_separator\<close> of the Unix build: the position of the last slash, if any.
\<close>

definition last_dir_separator :: "string \<Rightarrow> nat option" where
  "last_dir_separator p = (if CHR ''/'' \<in> set p
     then Some (length p - 1 - length (takeWhile (\<lambda>c. c \<noteq> CHR ''/'') (rev p)))
     else None)"

text \<open>
  The C function returns 0 and sets \<open>version\<close> and \<open>retpath\<close>, or returns -1 or -2 and
  leaves \<open>version\<close> unset: \<open>Inr (version, retpath)\<close> and \<open>Inl code\<close> here. The two
  \<open>snprintf\<close> cut their output at the buffer size \<open>MAXPGPATH\<close>.
\<close>

definition find_other_exec_version ::
  "world \<Rightarrow> string \<Rightarrow> string \<Rightarrow> (int + 32 word \<times> string) io" where
  "find_other_exec_version w argv0 target_prog =
     bindE (call (\<lambda>h. find_my_exec w h argv0) (\<lambda>(rc, p). [EvFindMyExec argv0 rc p])) (\<lambda>(rc, retpath0).
       if rc < 0 then ret (Inl (- 1))
       else (case last_dir_separator retpath0 of
           None \<Rightarrow> raise Segfault
         | Some k \<Rightarrow>
            (let dir = canonicalize_path w (take k retpath0);
                 retpath = dir @ take (MAXPGPATH w - length dir - 1) (''/'' @ target_prog @ EXE w);
                 cmd = take (MAXPGPATH w - 1) (dq @ retpath @ dq @ '' -V'')
             in bindE (call (\<lambda>h. popen_fgets w h cmd) (\<lambda>out. [EvPopen cmd out])) (\<lambda>out.
                  case out of
                    PopenNull \<Rightarrow> ret (Inl (- 1))
                  | FgetsNull \<Rightarrow> ret (Inl (- 1))
                  | FgetsLine cmd_output \<Rightarrow>
                     (case sscanf_version (take 1023 cmd_output) of
                        None \<Rightarrow> ret (Inl (- 2))
                      | Some (pre_dot, post_dot) \<Rightarrow>
                          ret (Inr ((pre_dot * 100 + post_dot) * 100, retpath)))))))"

text \<open>
  The command lines that \<open>dump_structure\<close> and \<open>restore_structure\<close> format into
  \<open>command\<close>, for the tool at the path found.
\<close>

definition dump_command :: "string \<Rightarrow> string \<Rightarrow> PGLogicalConnection \<Rightarrow> string" where
  "dump_command pg_dump snapshot conn =
     pg_dump @ '' --snapshot='' @ dq @ snapshot @ dq @ '' -F c -f '' @ dq
     @ ''/tmp/pglogical.dump'' @ dq @ '' '' @ dq @ node_dsn (origin conn) @ dq"

definition restore_command :: "string \<Rightarrow> string \<Rightarrow> PGLogicalConnection \<Rightarrow> string" where
  "restore_command pg_restore section_name conn =
     pg_restore @ '' --section='' @ dq @ section_name @ dq @ '' --exit-on-error -1 -d '' @ dq
     @ node_dsn (target conn) @ dq @ '' '' @ dq @ ''/tmp/pglogical.dump'' @ dq"

definition dump_structure :: "world \<Rightarrow> PGLogicalConnection \<Rightarrow> string \<Rightarrow> unit io" where
  "dump_structure w conn snapshot =
     bindE (find_other_exec_version w (my_exec_path w) ''pg_dump'') (\<lambda>found.
       case found of
         Inl rc \<Rightarrow> elog ERROR (''bdr node init failed to find pg_dump relative to binary ''
                      @ my_exec_path w)
       | Inr (version, pg_dump) \<Rightarrow>
           if version div 100 \<noteq> word_of_nat (PG_VERSION_NUM w div 100)
           then elog ERROR (''bdr node init found pg_dump with wrong major version ''
                  @ fmt_d (sint (version div 100 div 100)) @ ''.''
                  @ fmt_d (sint (version div 100 mod 100)) @ '', expected ''
                  @ fmt_d (int (PG_VERSION_NUM w div 100 div 100)) @ ''.''
                  @ fmt_d (int (PG_VERSION_NUM w div 100 mod 100)))
           else (let command = dump_command pg_dump snapshot conn
                 in bindE (call (\<lambda>h. system w h command) (\<lambda>res. [EvSystem command res])) (\<lambda>res.
                      if res \<noteq> 0
                      then bindE (call (strerror_errno w) (\<lambda>m. [])) (\<lambda>m.
                             ereport ERROR (''could not execute command '' @ dq @ command @ dq
                               @ '': '' @ m) None)
                      else ret ())))"

definition restore_structure :: "world \<Rightarrow> PGLogicalConnection \<Rightarrow> string \<Rightarrow> unit io" where
  "restore_structure w conn section_name =
     bindE (find_other_exec_version w (my_exec_path w) ''pg_restore'') (\<lambda>found.
       case found of
         Inl rc \<Rightarrow> elog ERROR (''bdr node init failed to find pg_restore relative to binary ''
                      @ my_exec_path w)
       | Inr (version, pg_restore) \<Rightarrow>
           if version div 100 \<noteq> word_of_nat (PG_VERSION_NUM w div 100)
           then elog ERROR (''bdr node init found pg_restore with wrong major version ''
                  @ fmt_d (sint (version div 100 div 100)) @ ''.''
                  @ fmt_d (sint (version div 100 mod 100)) @ '', expected ''
                  @ fmt_d (int (PG_VERSION_NUM w div 100 div 100)) @ ''.''
                  @ fmt_d (int (PG_VERSION_NUM w div 100 mod 100)))
           else (let command = restore_command pg_restore section_name conn
                 in bindE (call (\<lambda>h. system w h command) (\<lambda>res. [EvSystem command res])) (\<lambda>res.
                      if res \<noteq> 0
                      then bindE (call (strerror_errno w) (\<lambda>m. [])) (\<lambda>m.
                             ereport ERROR (''could not execute command '' @ dq @ command @ dq
                               @ '': '' @ m) None)
                      else ret ())))"

subsection \<open>Sessions\<close>

definition do_PQexec :: "world \<Rightarrow> PGconn \<Rightarrow> string \<Rightarrow> PGresult io" where
  "do_PQexec w conn query = call (\<lambda>h. PQexec w h conn query) (\<lambda>res. [EvPQexec conn query res])"

text \<open>\<open>PQgetvalue\<close> is NULL outside the rows and columns of the result.\<close>

definition PQntuples :: "PGresult \<Rightarrow> nat" where
  "PQntuples res = length (tuples res)"

definition PQgetvalue :: "PGresult \<Rightarrow> nat \<Rightarrow> nat \<Rightarrow> string option" where
  "PQgetvalue res i j = (if i < length (tuples res) \<and> j < length (tuples res ! i)
     then Some (tuples res ! i ! j) else None)"

definition PQresStatus :: "ExecStatusType \<Rightarrow> string" where
  "PQresStatus st = (case st of
      PGRES_EMPTY_QUERY \<Rightarrow> ''PGRES_EMPTY_QUERY''
    | PGRES_COMMAND_OK \<Rightarrow> ''PGRES_COMMAND_OK''
    | PGRES_TUPLES_OK \<Rightarrow> ''PGRES_TUPLES_OK''
    | PGRES_COPY_OUT \<Rightarrow> ''PGRES_COPY_OUT''
    | PGRES_COPY_IN \<Rightarrow> ''PGRES_COPY_IN''
    | PGRES_BAD_RESPONSE \<Rightarrow> ''PGRES_BAD_RESPONSE''
    | PGRES_NONFATAL_ERROR \<Rightarrow> ''PGRES_NONFATAL_ERROR''
    | PGRES_FATAL_ERROR \<Rightarrow> ''PGRES_FATAL_ERROR''
    | PGRES_COPY_BOTH \<Rightarrow> ''PGRES_COPY_BOTH''
    | PGRES_SINGLE_TUPLE \<Rightarrow> ''PGRES_SINGLE_TUPLE'')"

definition pg_connect :: "world \<Rightarrow> string \<Rightarrow> string \<Rightarrow> PGconn io" where
  "pg_connect w connstring connname =
     (let dsn = connstring @ '' fallback_application_name='' @ sq @ connname @ sq
      in bindE (call (\<lambda>h. PQconnectdb w h dsn) (\<lambda>(c, ok). [EvPQconnectdb dsn c ok])) (\<lambda>(conn, ok).
         bindE (if \<not> ok
                then bindE (call (\<lambda>h. PQerrorMessage w h conn) (\<lambda>m. [])) (\<lambda>m.
                       ereport FATAL (''could not connect to the postgresql server: '' @ m)
                         (Some (''dsn was: '' @ dsn)))
                else ret ()) (\<lambda>u.
         ret conn)))"

definition pg_connect_replica :: "world \<Rightarrow> string \<Rightarrow> string \<Rightarrow> PGconn io" where
  "pg_connect_replica w connstring connname =
     (let dsn = connstring @ '' replication=database fallback_application_name='' @ sq
                  @ connname @ sq
      in bindE (call (\<lambda>h. PQconnectdb w h dsn) (\<lambda>(c, ok). [EvPQconnectdb dsn c ok])) (\<lambda>(conn, ok).
         bindE (if \<not> ok
                then bindE (call (\<lambda>h. PQerrorMessage w h conn) (\<lambda>m. [])) (\<lambda>m.
                       ereport FATAL (''could not connect to the postgresql server in replication mode: '' @ m)
                         (Some (''dsn was: '' @ dsn)))
                else ret ()) (\<lambda>u.
         ret conn)))"

subsection \<open>The copy of the data\<close>

definition start_copy_origin_tx :: "world \<Rightarrow> PGconn \<Rightarrow> string \<Rightarrow> unit io" where
  "start_copy_origin_tx w conn snapshot =
     (let query = ''BEGIN TRANSACTION ISOLATION LEVEL REPEATABLE READ, READ ONLY;'' @ nl
                @ ''SET TRANSACTION SNAPSHOT '' @ sq @ snapshot @ sq @ '';'' @ nl
                @ ''SET DATESTYLE = ISO;'' @ nl
                @ ''SET INTERVALSTYLE = POSTGRES;'' @ nl
                @ ''SET extra_float_digits TO 3;'' @ nl
                @ ''SET statement_timeout = 0;'' @ nl
                @ ''SET lock_timeout = 0;'' @ nl
      in bindE (do_PQexec w conn query) (\<lambda>res.
           if resultStatus res \<noteq> PGRES_COMMAND_OK
           then elog ERROR (''BEGIN on origin node failed: '' @ resultErrorMessage res)
           else ret ()))"

text \<open>The template of the target has no \<open>%s\<close>: the snapshot is not used.\<close>

definition start_copy_target_tx :: "world \<Rightarrow> PGconn \<Rightarrow> string \<Rightarrow> unit io" where
  "start_copy_target_tx w conn snapshot =
     (let query = ''BEGIN TRANSACTION ISOLATION LEVEL READ COMMITTED;'' @ nl
                @ ''SET DATESTYLE = ISO;'' @ nl
                @ ''SET INTERVALSTYLE = POSTGRES;'' @ nl
                @ ''SET extra_float_digits TO 3;'' @ nl
                @ ''SET statement_timeout = 0;'' @ nl
                @ ''SET lock_timeout = 0;'' @ nl
      in bindE (do_PQexec w conn query) (\<lambda>res.
           if resultStatus res \<noteq> PGRES_COMMAND_OK
           then elog ERROR (''BEGIN on target node failed: '' @ resultErrorMessage res)
           else ret ()))"

text \<open>
  The loop \<open>while ((bytes = PQgetCopyData(origin_conn, &copybuf, false)) > 0)\<close> over the
  rows of the stream and the value that ends it; its result is \<open>bytes\<close> after the loop.
\<close>

fun copy_table_rows :: "world \<Rightarrow> PGconn \<Rightarrow> PGconn \<Rightarrow> string list \<Rightarrow> nat \<Rightarrow> int io" where
  "copy_table_rows w origin_conn target_conn [] fin =
     bindE (emit (EvPQgetCopyData origin_conn (- int fin) [])) (\<lambda>u. ret (- int fin))"
| "copy_table_rows w origin_conn target_conn (copybuf # rest) fin =
     (let bytes = int (length copybuf)
      in bindE (emit (EvPQgetCopyData origin_conn bytes copybuf)) (\<lambda>u.
         if bytes > 0
         then bindE (call (\<lambda>h. PQputCopyData w h target_conn copybuf)
                       (\<lambda>rc. [EvPQputCopyData target_conn copybuf rc])) (\<lambda>rc.
              bindE (if rc \<noteq> 1
                     then bindE (call (\<lambda>h. PQerrorMessage w h target_conn) (\<lambda>m. [])) (\<lambda>m.
                            ereport ERROR ''writing to target table failed''
                              (Some (''destination connection reported: '' @ m)))
                     else ret ()) (\<lambda>u.
              bindE (CHECK_FOR_INTERRUPTS w) (\<lambda>u.
              copy_table_rows w origin_conn target_conn rest fin)))
         else ret bytes))"

definition copy_table_data :: "world \<Rightarrow> PGconn \<Rightarrow> PGconn \<Rightarrow> string \<Rightarrow> string \<Rightarrow> unit io" where
  "copy_table_data w origin_conn target_conn schemaname relname =
     (let query = ''COPY '' @ PQescapeIdentifier w origin_conn schemaname @ ''.''
                  @ PQescapeIdentifier w origin_conn relname @ '' TO stdout''
      in bindE (do_PQexec w origin_conn query) (\<lambda>res.
         bindE (if resultStatus res \<noteq> PGRES_COPY_OUT
                then bindE (call (\<lambda>h. PQerrorMessage w h origin_conn) (\<lambda>m. [])) (\<lambda>m.
                       ereport ERROR ''table copy failed''
                         (Some (''Query '' @ sq @ query @ sq @ '': '' @ m)))
                else ret ()) (\<lambda>u.
         (let query = ''COPY '' @ PQescapeIdentifier w origin_conn schemaname @ ''.''
                      @ PQescapeIdentifier w origin_conn relname @ '' FROM stdin''
          in bindE (do_PQexec w target_conn query) (\<lambda>res.
             bindE (if resultStatus res \<noteq> PGRES_COPY_IN
                    then bindE (call (\<lambda>h. PQerrorMessage w h origin_conn) (\<lambda>m. [])) (\<lambda>m.
                           ereport ERROR ''table copy failed''
                             (Some (''Query '' @ sq @ query @ sq @ '': '' @ m)))
                    else ret ()) (\<lambda>u.
             bindE (call (\<lambda>h. PQgetCopyData_stream w h origin_conn) (\<lambda>s. [])) (\<lambda>(rows, fin).
             bindE (copy_table_rows w origin_conn target_conn rows fin) (\<lambda>bytes.
             bindE (if bytes \<noteq> - 1
                    then bindE (call (\<lambda>h. PQerrorMessage w h origin_conn) (\<lambda>m. [])) (\<lambda>m.
                           ereport ERROR ''reading from origin table failed''
                             (Some (''source connection returned '' @ fmt_d bytes @ '': '' @ m)))
                    else ret ()) (\<lambda>u.
             bindE (call (\<lambda>h. PQputCopyEnd w h target_conn)
                      (\<lambda>rc. [EvPQputCopyEnd target_conn rc])) (\<lambda>rc.
             if rc \<noteq> 1
             then bindE (call (\<lambda>h. PQerrorMessage w h target_conn) (\<lambda>m. [])) (\<lambda>m.
                    ereport ERROR ''sending copy-completion to destination connection failed''
                      (Some (''destination connection reported: '' @ m)))
             else ret ()))))))))))"

record RangeVar =
  schemaname :: string
  relname :: string

text \<open>\<open>foreach (lc, replication_sets) appendStringInfo(&repsetarr, "%s", rs->name)\<close>\<close>

fun append_repset_names :: "string \<Rightarrow> PGLogicalRepSet list \<Rightarrow> string" where
  "append_repset_names repsetarr [] = repsetarr"
| "append_repset_names repsetarr (rs # rest) =
     append_repset_names (repsetarr @ repset_name rs) rest"

text \<open>
  \<open>for (i = 0; i < PQntuples(res); i++)\<close>: \<open>pstrdup\<close> of a NULL \<open>PQgetvalue\<close> is the
  dereference of a NULL pointer.
\<close>

function get_copy_tables_loop :: "PGresult \<Rightarrow> nat \<Rightarrow> RangeVar list \<Rightarrow> failure + RangeVar list" where
  "get_copy_tables_loop res i tables =
     (if i < PQntuples res
      then (case PQgetvalue res i 0 of
              None \<Rightarrow> Inl Segfault
            | Some nspname \<Rightarrow>
               (case PQgetvalue res i 1 of
                  None \<Rightarrow> Inl Segfault
                | Some rel \<Rightarrow>
                    get_copy_tables_loop res (Suc i)
                      (tables @ [\<lparr>schemaname = nspname, relname = rel\<rparr>])))
      else Inr tables)"
  by pat_completeness auto
termination
  by (relation "measure (\<lambda>(res, i, tables). PQntuples res - i)") auto

declare get_copy_tables_loop.simps [simp del]

definition get_copy_tables :: "world \<Rightarrow> PGconn \<Rightarrow> PGLogicalRepSet list \<Rightarrow> RangeVar list io" where
  "get_copy_tables w origin_conn repsets =
     (let repsetarr = append_repset_names ''{'' repsets @ ''}'';
          query = ''SELECT nspname, relname FROM '' @ EXTENSION_NAME w
                  @ ''.tables WHERE set_name = ANY('' @ PQescapeLiteral w origin_conn repsetarr
                  @ '')''
      in bindE (do_PQexec w origin_conn query) (\<lambda>res.
         bindE (if resultStatus res \<noteq> PGRES_TUPLES_OK
                then elog ERROR ''could not get table list''
                else ret ()) (\<lambda>u.
         (case get_copy_tables_loop res 0 [] of
            Inl f \<Rightarrow> raise f
          | Inr tables \<Rightarrow> ret tables))))"

text \<open>\<open>foreach (lc, tables)\<close> of \<open>copy_node_data\<close>.\<close>

fun copy_tables :: "world \<Rightarrow> PGconn \<Rightarrow> PGconn \<Rightarrow> RangeVar list \<Rightarrow> unit io" where
  "copy_tables w origin_conn target_conn [] = ret ()"
| "copy_tables w origin_conn target_conn (rv # rest) =
     bindE (copy_table_data w origin_conn target_conn (schemaname rv) (relname rv)) (\<lambda>u.
     bindE (CHECK_FOR_INTERRUPTS w) (\<lambda>u.
     copy_tables w origin_conn target_conn rest))"

definition copy_node_data :: "world \<Rightarrow> PGLogicalConnection \<Rightarrow> string \<Rightarrow> unit io" where
  "copy_node_data w conn snapshot =
     bindE (pg_connect w (node_dsn (origin conn)) (EXTENSION_NAME w @ ''_init'')) (\<lambda>origin_conn.
     bindE (start_copy_origin_tx w origin_conn snapshot) (\<lambda>u.
     bindE (get_copy_tables w origin_conn (replication_sets conn)) (\<lambda>tables.
     bindE (pg_connect w (node_dsn (target conn)) (EXTENSION_NAME w @ ''_init'')) (\<lambda>target_conn.
     bindE (start_copy_target_tx w target_conn snapshot) (\<lambda>u.
     bindE (copy_tables w origin_conn target_conn tables) (\<lambda>u.
     bindE (do_PQexec w origin_conn ''ROLLBACK'') (\<lambda>res.
     bindE (if resultStatus res \<noteq> PGRES_COMMAND_OK
            then elog WARNING (''ROLLBACK on origin node failed: '' @ resultErrorMessage res)
            else ret ()) (\<lambda>u.
     bindE (emit (EvPQfinish origin_conn)) (\<lambda>u.
     bindE (do_PQexec w target_conn ''COMMIT'') (\<lambda>res.
     bindE (if resultStatus res \<noteq> PGRES_COMMAND_OK
            then elog ERROR (''COMMIT on target node failed: '' @ resultErrorMessage res)
            else ret ()) (\<lambda>u.
     emit (EvPQfinish target_conn))))))))))))"

subsection \<open>Slot and origin\<close>

text \<open>
  The C function returns the snapshot and stores the LSN through \<open>lsn\<close>: the pair
  \<open>(snapshot, lsn)\<close> here. \<open>pg_lsn_in\<close> and \<open>pstrdup\<close> are called on the fields 1 and 2
  of the first row, whether the row has them or not.
\<close>

definition ensure_replication_slot_snapshot ::
  "world \<Rightarrow> PGconn \<Rightarrow> string \<Rightarrow> (string \<times> XLogRecPtr) io" where
  "ensure_replication_slot_snapshot w origin_conn slot_name =
     (let query = ''CREATE_REPLICATION_SLOT '' @ dq @ slot_name @ dq @ '' LOGICAL ''
                  @ ''pg_logical_output''
      in bindE (do_PQexec w origin_conn query) (\<lambda>res.
         bindE (if resultStatus res \<noteq> PGRES_TUPLES_OK
                then elog FATAL (''could not send replication command '' @ dq @ query @ dq
                       @ '': status '' @ PQresStatus (resultStatus res) @ '': ''
                       @ resultErrorMessage res @ nl)
                else ret ()) (\<lambda>u.
         (case PQgetvalue res 0 1 of
            None \<Rightarrow> raise Segfault
          | Some lsn_text \<Rightarrow>
             (case pg_lsn_in w lsn_text of
                Inl f \<Rightarrow> raise f
              | Inr lsn \<Rightarrow>
                 (case PQgetvalue res 0 2 of
                    None \<Rightarrow> raise Segfault
                  | Some snapshot \<Rightarrow> ret (snapshot, lsn)))))))"

definition InvalidRepOriginId :: RepOriginId where
  "InvalidRepOriginId = 0"

definition ensure_replication_origin :: "world \<Rightarrow> string \<Rightarrow> RepOriginId io" where
  "ensure_replication_origin w slot_name =
     bindE (call (\<lambda>h. replorigin_by_name w h slot_name)
              (\<lambda>r. [EvReplorigin_by_name slot_name r])) (\<lambda>origin_id.
     if origin_id = InvalidRepOriginId
     then call (\<lambda>h. replorigin_create w h slot_name) (\<lambda>r. [EvReplorigin_create slot_name r])
     else ret origin_id)"

definition make_other_slots :: "PGLogicalNode \<Rightarrow> int" where
  "make_other_slots target_node = 0"

subsection \<open>pglogical\_init\_replica\<close>

definition set_node_status :: "int \<Rightarrow> node_status \<Rightarrow> unit io" where
  "set_node_status nodeid st = emit (EvSet_node_status nodeid st)"

definition set_remote_node_status :: "PGconn \<Rightarrow> string \<Rightarrow> node_status \<Rightarrow> unit io" where
  "set_remote_node_status conn nm st = emit (EvSet_remote_node_status conn nm st)"

text \<open>
  The local variable \<open>status\<close> is passed from each \<open>if (status == ...)\<close> block to the
  next one.
\<close>

definition pglogical_init_replica :: "world \<Rightarrow> PGLogicalConnection \<Rightarrow> unit io" where
  "pglogical_init_replica w conn =
     (let target_node = target conn; status = node_status target_node
      in bindE (case status of
                  NODE_STATUS_INIT \<Rightarrow> ret ()
                | NODE_STATUS_SLOTS \<Rightarrow> ret ()
                | NODE_STATUS_CATCHUP \<Rightarrow> ret ()
                | NODE_STATUS_CONNECT_BACK \<Rightarrow> ret ()
                | _ \<Rightarrow> elog ERROR ''node initialization failed during nonrecoverable step, please try the setup again'') (\<lambda>u.
         bindE (if status = NODE_STATUS_INIT
                then bindE (elog INFO ''initializing node'') (\<lambda>u.
                     bindE (emit EvStartTransactionCommand) (\<lambda>u.
                     bindE (call (get_database_name w) (\<lambda>n. [])) (\<lambda>dbname.
                     (let slot_name = gen_slot_name w dbname (origin conn) target_node
                      in bindE (pg_connect_replica w (node_dsn (origin conn))
                                  (EXTENSION_NAME w @ ''_snapshot'')) (\<lambda>origin_conn_repl.
                         bindE (ensure_replication_slot_snapshot w origin_conn_repl slot_name)
                           (\<lambda>(snapshot, lsn).
                         bindE (ensure_replication_origin w slot_name) (\<lambda>originid.
                         bindE (call (XactLastCommitEnd w) (\<lambda>x. [])) (\<lambda>commit_end.
                         bindE (emit (EvReplorigin_advance originid lsn commit_end True True)) (\<lambda>u.
                         bindE (emit EvCommitTransactionCommand) (\<lambda>u.
                         bindE (set_node_status (node_id target_node) NODE_STATUS_SYNC_SCHEMA) (\<lambda>u.
                         bindE (elog INFO ''synchronizing schemas'') (\<lambda>u.
                         bindE (dump_structure w conn snapshot) (\<lambda>u.
                         bindE (restore_structure w conn ''pre-data'') (\<lambda>u.
                         bindE (copy_node_data w conn snapshot) (\<lambda>u.
                         bindE (restore_structure w conn ''post-data'') (\<lambda>u.
                         bindE (set_node_status (node_id target_node) NODE_STATUS_SLOTS) (\<lambda>u.
                         ret NODE_STATUS_SLOTS)))))))))))))))))
                else ret status) (\<lambda>status.
         bindE (if status = NODE_STATUS_SLOTS
                then (let r = make_other_slots target_node
                      in bindE (set_node_status (node_id target_node) NODE_STATUS_CATCHUP) (\<lambda>u.
                         ret NODE_STATUS_CATCHUP))
                else ret status) (\<lambda>status.
         bindE (if status = NODE_STATUS_CATCHUP
                then bindE (case node_role target_node of
                              NODE_ROLE_SUBSCRIBER \<Rightarrow> ret ()
                            | _ \<Rightarrow> elog ERROR ''only subscriber node can be replication target'') (\<lambda>u.
                     bindE (set_node_status (node_id target_node) NODE_STATUS_CONNECT_BACK) (\<lambda>u.
                     ret NODE_STATUS_CONNECT_BACK))
                else ret status) (\<lambda>status.
         if status = NODE_STATUS_CONNECT_BACK
         then bindE (case node_role target_node of
                       NODE_ROLE_SUBSCRIBER \<Rightarrow> ret ()
                     | _ \<Rightarrow> elog ERROR ''only subscriber node can be replication target'') (\<lambda>u.
              (let status = NODE_STATUS_READY
               in bindE (set_node_status (node_id target_node) status) (\<lambda>u.
                  bindE (pg_connect w (node_dsn (origin conn)) (EXTENSION_NAME w @ ''_init''))
                    (\<lambda>origin_conn.
                  bindE (set_remote_node_status origin_conn (node_name target_node) status) (\<lambda>u.
                  bindE (emit (EvPQfinish origin_conn)) (\<lambda>u.
                  elog INFO ''finished init_replica, ready to enter normal replication''))))))
         else ret ())))))"

subsection \<open>A concrete world\<close>

text \<open>
  What libpq's two escaping functions return on text that is valid in the session's
  encoding: the identifier between double quotes with every double quote doubled;
  the literal between single quotes with every single quote and backslash doubled,
  and \<open>E\<close> in front when a backslash occurs. They stand for the functions in the
  concrete world below; the theorems hold for every world.
\<close>

definition libpq_escape_identifier :: "string \<Rightarrow> string" where
  "libpq_escape_identifier s =
     dq @ concat (map (\<lambda>c. if c = CHR 0x22 then [c, c] else [c]) s) @ dq"

definition libpq_escape_literal :: "string \<Rightarrow> string" where
  "libpq_escape_literal s =
     (if CHR 0x5C \<in> set s then '' E'' else []) @ sq
     @ concat (map (\<lambda>c. if c = CHR 0x27 \<or> c = CHR 0x5C then [c, c] else [c]) s) @ sq"

definition origin0 :: PGLogicalNode where
  "origin0 = \<lparr>node_id = 1, node_name = ''provider1'', node_dsn = ''host=origin dbname=postgres'',
     node_role = NODE_ROLE_OTHER CHR ''p'', node_status = NODE_STATUS_READY\<rparr>"

definition target0 :: PGLogicalNode where
  "target0 = \<lparr>node_id = 2, node_name = ''subscriber1'', node_dsn = ''host=target dbname=postgres'',
     node_role = NODE_ROLE_SUBSCRIBER, node_status = NODE_STATUS_INIT\<rparr>"

definition conn0 :: PGLogicalConnection where
  "conn0 = \<lparr>origin = origin0, target = target0,
     replication_sets = [\<lparr>repset_name = ''default''\<rparr>]\<rparr>"

text \<open>
  A server of version 9.4.1 with tools of the same version, an origin that has the
  table \<open>public.accounts\<close> with two rows in the replication set, and no failure.
\<close>

definition world0_PQexec :: "event list \<Rightarrow> PGconn \<Rightarrow> string \<Rightarrow> PGresult" where
  "world0_PQexec h c query =
     (if take 6 query = ''SELECT''
      then \<lparr>resultStatus = PGRES_TUPLES_OK, resultErrorMessage = [],
             tuples = [[''public'', ''accounts'']]\<rparr>
      else if take 6 query = ''CREATE''
      then \<lparr>resultStatus = PGRES_TUPLES_OK, resultErrorMessage = [],
             tuples = [[''pgl_postgres_provider1_subscriber1'', ''0/16B3748'',
                        ''00000003-00000002-1'', ''pg_logical_output'']]\<rparr>
      else if take 4 query = ''COPY'' \<and> take 6 (rev query) = rev ''stdout''
      then \<lparr>resultStatus = PGRES_COPY_OUT, resultErrorMessage = [], tuples = []\<rparr>
      else if take 4 query = ''COPY''
      then \<lparr>resultStatus = PGRES_COPY_IN, resultErrorMessage = [], tuples = []\<rparr>
      else \<lparr>resultStatus = PGRES_COMMAND_OK, resultErrorMessage = [], tuples = []\<rparr>)"

definition world0 :: world where
  "world0 = \<lparr>
     MAXPGPATH = 1024,
     EXE = [],
     PG_VERSION_NUM = 90401,
     EXTENSION_NAME = ''pglogical'',
     my_exec_path = ''/usr/pgsql-9.4/bin/postgres'',
     canonicalize_path = (\<lambda>p. p),
     gen_slot_name = (\<lambda>db o_node t_node. ''pgl_'' @ db @ ''_'' @ node_name o_node @ ''_''
                         @ node_name t_node),
     pg_lsn_in = (\<lambda>s. if s = ''0/16B3748'' then Inr 0x16B3748
                        else Inl (Ereport ERROR ''invalid input syntax for type pg_lsn'' None)),
     PQescapeIdentifier = (\<lambda>c. libpq_escape_identifier),
     PQescapeLiteral = (\<lambda>c. libpq_escape_literal),
     get_database_name = (\<lambda>h. ''postgres''),
     XactLastCommitEnd = (\<lambda>h. 0),
     find_my_exec = (\<lambda>h argv0. (0, argv0)),
     popen_fgets = (\<lambda>h cmd. FgetsLine (''pg_tool (PostgreSQL) 9.4.1'' @ nl)),
     system = (\<lambda>h cmd. 0),
     strerror_errno = (\<lambda>h. ''No such file or directory''),
     interrupt_pending = (\<lambda>h. None),
     PQconnectdb = (\<lambda>h dsn. (PGconn (length h), True)),
     PQerrorMessage = (\<lambda>h c. ''server closed the connection unexpectedly''),
     PQexec = world0_PQexec,
     PQgetCopyData_stream = (\<lambda>h c. ([''1'' @ [CHR 0x09] @ ''alice'' @ nl,
                                         ''2'' @ [CHR 0x09] @ ''bob'' @ nl], 1)),
     PQputCopyData = (\<lambda>h c buf. 1),
     PQputCopyEnd = (\<lambda>h c. 1),
     replorigin_by_name = (\<lambda>h nm. 0),
     replorigin_create = (\<lambda>h nm. 1)\<rparr>"

subsection \<open>Kinds of events, and what a run has persisted\<close>

datatype ev_kind = KLog | KTool | KSystem | KConnect | KExec | KCopy | KFinish | KTx
  | KOrigin | KStatus | KRemote

fun kind_of :: "event \<Rightarrow> ev_kind" where
  "kind_of (EvElog lev msg) = KLog"
| "kind_of (EvFindMyExec argv0 rc p) = KTool"
| "kind_of (EvPopen cmd out) = KTool"
| "kind_of (EvSystem cmd rc) = KSystem"
| "kind_of (EvPQconnectdb dsn c ok) = KConnect"
| "kind_of (EvPQexec c q res) = KExec"
| "kind_of (EvPQgetCopyData c n buf) = KCopy"
| "kind_of (EvPQputCopyData c buf rc) = KCopy"
| "kind_of (EvPQputCopyEnd c rc) = KCopy"
| "kind_of (EvPQfinish c) = KFinish"
| "kind_of EvStartTransactionCommand = KTx"
| "kind_of EvCommitTransactionCommand = KTx"
| "kind_of (EvReplorigin_by_name nm r) = KOrigin"
| "kind_of (EvReplorigin_create nm r) = KOrigin"
| "kind_of (EvReplorigin_advance r lsn e f g) = KOrigin"
| "kind_of (EvSet_node_status i st) = KStatus"
| "kind_of (EvSet_remote_node_status c nm st) = KRemote"

text \<open>\<open>emits P m\<close>: whatever the history, every event that \<open>m\<close> adds satisfies \<open>P\<close>.\<close>

definition emits :: "(event \<Rightarrow> bool) \<Rightarrow> 'a io \<Rightarrow> bool" where
  "emits P m = (\<forall>h. list_all P (fst (m h)))"

text \<open>The connection record with the target node at another persisted status.\<close>

definition conn_at :: "node_status \<Rightarrow> PGLogicalConnection" where
  "conn_at st = conn0\<lparr>target := target0\<lparr>node_status := st\<rparr>\<rparr>"

text \<open>
  The scenario of a server of version 15 beside tools that report 14.2.
\<close>

definition world_tool_14_2 :: world where
  "world_tool_14_2 = world0\<lparr>PG_VERSION_NUM := 150004,
     popen_fgets := (\<lambda>h cmd. FgetsLine (''pg_dump (PostgreSQL) 14.2'' @ nl))\<rparr>"

text \<open>
  How the server reads an array literal whose elements need no quoting: the text
  between the braces, cut at the commas. It is not part of the C file; it says which
  elements the literal that \<open>get_copy_tables\<close> sends has.
\<close>

fun split_commas :: "string \<Rightarrow> string \<Rightarrow> string list" where
  "split_commas cur [] = [cur]"
| "split_commas cur (c # cs) =
     (if c = CHR '','' then cur # split_commas [] cs else split_commas (cur @ [c]) cs)"

definition array_literal_elements :: "string \<Rightarrow> string list" where
  "array_literal_elements lit = (if lit = ''{}'' then [] else split_commas [] (butlast (tl lit)))"




text \<open>
  Worlds in which the end of the copy fails: the origin refuses \<open>ROLLBACK\<close>, the
  target refuses \<open>COMMIT\<close>.
\<close>

definition failed_result :: PGresult where
  "failed_result = \<lparr>resultStatus = PGRES_FATAL_ERROR,
     resultErrorMessage = ''server closed the connection unexpectedly'', tuples = []\<rparr>"

definition world_rollback_fails :: world where
  "world_rollback_fails = world0\<lparr>PQexec := (\<lambda>h c query.
     if query = ''ROLLBACK'' then failed_result else world0_PQexec h c query)\<rparr>"

definition world_commit_fails :: world where
  "world_commit_fails = world0\<lparr>PQexec := (\<lambda>h c query.
     if query = ''COMMIT'' then failed_result else world0_PQexec h c query)\<rparr>"

subsection \<open>Notions used in the proofs\<close>

text \<open>\<open>holds Q m\<close>: whatever the history, the events and the outcome of \<open>m\<close> satisfy \<open>Q\<close>.\<close>

definition holds :: "(event list \<Rightarrow> failure + 'a \<Rightarrow> bool) \<Rightarrow> 'a io \<Rightarrow> bool" where
  "holds Q m = (\<forall>h. Q (fst (m h)) (snd (m h)))"

text \<open>An event other than the statements \<open>ROLLBACK\<close> and \<open>COMMIT\<close>.\<close>

definition not_tx_end :: "event \<Rightarrow> bool" where
  "not_tx_end ev = (case ev of
      EvPQexec c q res \<Rightarrow> q \<noteq> ''ROLLBACK'' \<and> q \<noteq> ''COMMIT''
    | _ \<Rightarrow> True)"

text \<open>What the end of \<open>copy_node_data\<close> guarantees (C6).\<close>

definition tx_end_post :: "event list \<Rightarrow> failure + unit \<Rightarrow> bool" where
  "tx_end_post evs r =
     ((\<forall>c res. EvPQexec c ''ROLLBACK'' res \<in> set evs \<longrightarrow>
          resultStatus res \<noteq> PGRES_COMMAND_OK \<longrightarrow>
          EvElog WARNING (''ROLLBACK on origin node failed: '' @ resultErrorMessage res) \<in> set evs
          \<and> (\<exists>c' res'. EvPQexec c' ''COMMIT'' res' \<in> set evs))
      \<and> (\<forall>c res. EvPQexec c ''COMMIT'' res \<in> set evs \<longrightarrow>
          r = (if resultStatus res = PGRES_COMMAND_OK then Inr ()
               else Inl (Ereport ERROR
                      (''COMMIT on target node failed: '' @ resultErrorMessage res) None))))"

subsection \<open>The phases of pglogical\_init\_replica\<close>

text \<open>
  The parts of \<open>pglogical_init_replica\<close>, named so that lemmas can be stated about
  them: the entry switch, the transaction of the \<open>INIT\<close> block (lines 521 to 536),
  the rest of that block (lines 538 to 556), and the three blocks after it.
  \<open>pglogical_init_replica_phases\<close> below shows that the function is their sequence.
\<close>

definition entry_check :: "node_status \<Rightarrow> unit io" where
  "entry_check status = (case status of
      NODE_STATUS_INIT \<Rightarrow> ret ()
    | NODE_STATUS_SLOTS \<Rightarrow> ret ()
    | NODE_STATUS_CATCHUP \<Rightarrow> ret ()
    | NODE_STATUS_CONNECT_BACK \<Rightarrow> ret ()
    | _ \<Rightarrow> elog ERROR ''node initialization failed during nonrecoverable step, please try the setup again'')"

definition init_transaction :: "world \<Rightarrow> PGLogicalConnection \<Rightarrow> string io" where
  "init_transaction w conn =
     bindE (elog INFO ''initializing node'') (\<lambda>u.
     bindE (emit EvStartTransactionCommand) (\<lambda>u.
     bindE (call (get_database_name w) (\<lambda>n. [])) (\<lambda>dbname.
     (let slot_name = gen_slot_name w dbname (origin conn) (target conn)
      in bindE (pg_connect_replica w (node_dsn (origin conn))
                  (EXTENSION_NAME w @ ''_snapshot'')) (\<lambda>origin_conn_repl.
         bindE (ensure_replication_slot_snapshot w origin_conn_repl slot_name)
           (\<lambda>(snapshot, lsn).
         bindE (ensure_replication_origin w slot_name) (\<lambda>originid.
         bindE (call (XactLastCommitEnd w) (\<lambda>x. [])) (\<lambda>commit_end.
         bindE (emit (EvReplorigin_advance originid lsn commit_end True True)) (\<lambda>u.
         bindE (emit EvCommitTransactionCommand) (\<lambda>u.
         ret snapshot))))))))))"

definition sync_schema :: "world \<Rightarrow> PGLogicalConnection \<Rightarrow> string \<Rightarrow> node_status io" where
  "sync_schema w conn snapshot =
     bindE (set_node_status (node_id (target conn)) NODE_STATUS_SYNC_SCHEMA) (\<lambda>u.
     bindE (elog INFO ''synchronizing schemas'') (\<lambda>u.
     bindE (dump_structure w conn snapshot) (\<lambda>u.
     bindE (restore_structure w conn ''pre-data'') (\<lambda>u.
     bindE (copy_node_data w conn snapshot) (\<lambda>u.
     bindE (restore_structure w conn ''post-data'') (\<lambda>u.
     bindE (set_node_status (node_id (target conn)) NODE_STATUS_SLOTS) (\<lambda>u.
     ret NODE_STATUS_SLOTS)))))))"

definition later_phases :: "world \<Rightarrow> PGLogicalConnection \<Rightarrow> node_status \<Rightarrow> unit io" where
  "later_phases w conn status0 =
     bindE (if status0 = NODE_STATUS_SLOTS
            then (let r = make_other_slots (target conn)
                  in bindE (set_node_status (node_id (target conn)) NODE_STATUS_CATCHUP) (\<lambda>u.
                     ret NODE_STATUS_CATCHUP))
            else ret status0) (\<lambda>status.
     bindE (if status = NODE_STATUS_CATCHUP
            then bindE (case node_role (target conn) of
                          NODE_ROLE_SUBSCRIBER \<Rightarrow> ret ()
                        | _ \<Rightarrow> elog ERROR ''only subscriber node can be replication target'') (\<lambda>u.
                 bindE (set_node_status (node_id (target conn)) NODE_STATUS_CONNECT_BACK) (\<lambda>u.
                 ret NODE_STATUS_CONNECT_BACK))
            else ret status) (\<lambda>status.
     if status = NODE_STATUS_CONNECT_BACK
     then bindE (case node_role (target conn) of
                   NODE_ROLE_SUBSCRIBER \<Rightarrow> ret ()
                 | _ \<Rightarrow> elog ERROR ''only subscriber node can be replication target'') (\<lambda>u.
          (let status = NODE_STATUS_READY
           in bindE (set_node_status (node_id (target conn)) status) (\<lambda>u.
              bindE (pg_connect w (node_dsn (origin conn)) (EXTENSION_NAME w @ ''_init''))
                (\<lambda>origin_conn.
              bindE (set_remote_node_status origin_conn (node_name (target conn)) status) (\<lambda>u.
              bindE (emit (EvPQfinish origin_conn)) (\<lambda>u.
              elog INFO ''finished init_replica, ready to enter normal replication''))))))
     else ret ()))"

subsection \<open>The statuses a run persists\<close>

text \<open>
  The statuses given to \<open>set_node_status\<close>, in the order of the calls; the order
  \<open>INIT\<close>, \<open>SYNC_SCHEMA\<close>, \<open>SLOTS\<close>, \<open>CATCHUP\<close>, \<open>CONNECT_BACK\<close>, \<open>READY\<close> of the
  statuses; the statuses that follow one in that order; and \<open>persists S R m\<close>: the
  statuses that \<open>m\<close> persists are an initial segment of \<open>S\<close>, and all of \<open>S\<close> when \<open>m\<close>
  returns, with a value that satisfies \<open>R\<close>.
\<close>

fun persisted :: "event list \<Rightarrow> node_status list" where
  "persisted [] = []"
| "persisted (ev # evs) = (case ev of
      EvSet_node_status i st \<Rightarrow> st # persisted evs
    | _ \<Rightarrow> persisted evs)"

fun status_rank :: "node_status \<Rightarrow> nat option" where
  "status_rank NODE_STATUS_INIT = Some 0"
| "status_rank NODE_STATUS_SYNC_SCHEMA = Some 1"
| "status_rank NODE_STATUS_SLOTS = Some 2"
| "status_rank NODE_STATUS_CATCHUP = Some 3"
| "status_rank NODE_STATUS_CONNECT_BACK = Some 4"
| "status_rank NODE_STATUS_READY = Some 5"
| "status_rank (NODE_STATUS_OTHER c) = None"

definition status_before :: "node_status \<Rightarrow> node_status \<Rightarrow> bool" where
  "status_before a b = (case status_rank a of
      None \<Rightarrow> False
    | Some i \<Rightarrow> (case status_rank b of None \<Rightarrow> False | Some j \<Rightarrow> i < j))"

fun following :: "node_status \<Rightarrow> node_status list" where
  "following NODE_STATUS_INIT = [NODE_STATUS_SYNC_SCHEMA, NODE_STATUS_SLOTS,
     NODE_STATUS_CATCHUP, NODE_STATUS_CONNECT_BACK, NODE_STATUS_READY]"
| "following NODE_STATUS_SLOTS = [NODE_STATUS_CATCHUP, NODE_STATUS_CONNECT_BACK,
     NODE_STATUS_READY]"
| "following NODE_STATUS_CATCHUP = [NODE_STATUS_CONNECT_BACK, NODE_STATUS_READY]"
| "following NODE_STATUS_CONNECT_BACK = [NODE_STATUS_READY]"
| "following st = []"

definition persists :: "node_status list \<Rightarrow> ('a \<Rightarrow> bool) \<Rightarrow> 'a io \<Rightarrow> bool" where
  "persists S R m = (\<forall>h. prefix (persisted (fst (m h))) S
     \<and> (\<forall>a. snd (m h) = Inr a \<longrightarrow> persisted (fst (m h)) = S \<and> R a))"

text \<open>
  The events of the bootstrap of \<open>conn0\<close> in \<open>world0\<close>, from status \<open>INIT\<close> to
  \<open>READY\<close> (\<open>world0_run\<close> below).
\<close>

definition world0_trace :: "event list" where
  "world0_trace =
    [EvElog INFO ''initializing node'',
     EvStartTransactionCommand,
     EvPQconnectdb (''host=origin dbname=postgres replication=database fallback_application_name=''
       @ sq @ ''pglogical_snapshot'' @ sq) (PGconn 2) True,
     EvPQexec (PGconn 2) (''CREATE_REPLICATION_SLOT '' @ dq @ ''pgl_postgres_provider1_subscriber1''
       @ dq @ '' LOGICAL pg_logical_output'')
       \<lparr>resultStatus = PGRES_TUPLES_OK, resultErrorMessage = [],
         tuples = [[''pgl_postgres_provider1_subscriber1'', ''0/16B3748'',
                    ''00000003-00000002-1'', ''pg_logical_output'']]\<rparr>,
     EvReplorigin_by_name ''pgl_postgres_provider1_subscriber1'' 0,
     EvReplorigin_create ''pgl_postgres_provider1_subscriber1'' 1,
     EvReplorigin_advance 1 0x16B3748 0 True True,
     EvCommitTransactionCommand,
     EvSet_node_status 2 NODE_STATUS_SYNC_SCHEMA,
     EvElog INFO ''synchronizing schemas'',
     EvFindMyExec ''/usr/pgsql-9.4/bin/postgres'' 0 ''/usr/pgsql-9.4/bin/postgres'',
     EvPopen (dq @ ''/usr/pgsql-9.4/bin/pg_dump'' @ dq @ '' -V'')
       (FgetsLine (''pg_tool (PostgreSQL) 9.4.1'' @ nl)),
     EvSystem (''/usr/pgsql-9.4/bin/pg_dump --snapshot='' @ dq @ ''00000003-00000002-1'' @ dq
       @ '' -F c -f '' @ dq @ ''/tmp/pglogical.dump'' @ dq @ '' '' @ dq
       @ ''host=origin dbname=postgres'' @ dq) 0,
     EvFindMyExec ''/usr/pgsql-9.4/bin/postgres'' 0 ''/usr/pgsql-9.4/bin/postgres'',
     EvPopen (dq @ ''/usr/pgsql-9.4/bin/pg_restore'' @ dq @ '' -V'')
       (FgetsLine (''pg_tool (PostgreSQL) 9.4.1'' @ nl)),
     EvSystem (''/usr/pgsql-9.4/bin/pg_restore --section='' @ dq @ ''pre-data'' @ dq
       @ '' --exit-on-error -1 -d '' @ dq @ ''host=target dbname=postgres'' @ dq @ '' '' @ dq
       @ ''/tmp/pglogical.dump'' @ dq) 0,
     EvPQconnectdb (''host=origin dbname=postgres fallback_application_name='' @ sq
       @ ''pglogical_init'' @ sq) (PGconn 16) True,
     EvPQexec (PGconn 16)
       (''BEGIN TRANSACTION ISOLATION LEVEL REPEATABLE READ, READ ONLY;'' @ nl
        @ ''SET TRANSACTION SNAPSHOT '' @ sq @ ''00000003-00000002-1'' @ sq @ '';'' @ nl
        @ ''SET DATESTYLE = ISO;'' @ nl
        @ ''SET INTERVALSTYLE = POSTGRES;'' @ nl
        @ ''SET extra_float_digits TO 3;'' @ nl
        @ ''SET statement_timeout = 0;'' @ nl
        @ ''SET lock_timeout = 0;'' @ nl)
       \<lparr>resultStatus = PGRES_COMMAND_OK, resultErrorMessage = [], tuples = []\<rparr>,
     EvPQexec (PGconn 16)
       (''SELECT nspname, relname FROM pglogical.tables WHERE set_name = ANY('' @ sq
        @ ''{default}'' @ sq @ '')'')
       \<lparr>resultStatus = PGRES_TUPLES_OK, resultErrorMessage = [],
         tuples = [[''public'', ''accounts'']]\<rparr>,
     EvPQconnectdb (''host=target dbname=postgres fallback_application_name='' @ sq
       @ ''pglogical_init'' @ sq) (PGconn 19) True,
     EvPQexec (PGconn 19)
       (''BEGIN TRANSACTION ISOLATION LEVEL READ COMMITTED;'' @ nl
        @ ''SET DATESTYLE = ISO;'' @ nl
        @ ''SET INTERVALSTYLE = POSTGRES;'' @ nl
        @ ''SET extra_float_digits TO 3;'' @ nl
        @ ''SET statement_timeout = 0;'' @ nl
        @ ''SET lock_timeout = 0;'' @ nl)
       \<lparr>resultStatus = PGRES_COMMAND_OK, resultErrorMessage = [], tuples = []\<rparr>,
     EvPQexec (PGconn 16)
       (''COPY '' @ dq @ ''public'' @ dq @ ''.'' @ dq @ ''accounts'' @ dq @ '' TO stdout'')
       \<lparr>resultStatus = PGRES_COPY_OUT, resultErrorMessage = [], tuples = []\<rparr>,
     EvPQexec (PGconn 19)
       (''COPY '' @ dq @ ''public'' @ dq @ ''.'' @ dq @ ''accounts'' @ dq @ '' FROM stdin'')
       \<lparr>resultStatus = PGRES_COPY_IN, resultErrorMessage = [], tuples = []\<rparr>,
     EvPQgetCopyData (PGconn 16) 8 (''1'' @ [CHR 0x09] @ ''alice'' @ nl),
     EvPQputCopyData (PGconn 19) (''1'' @ [CHR 0x09] @ ''alice'' @ nl) 1,
     EvPQgetCopyData (PGconn 16) 6 (''2'' @ [CHR 0x09] @ ''bob'' @ nl),
     EvPQputCopyData (PGconn 19) (''2'' @ [CHR 0x09] @ ''bob'' @ nl) 1,
     EvPQgetCopyData (PGconn 16) (- 1) [],
     EvPQputCopyEnd (PGconn 19) 1,
     EvPQexec (PGconn 16) ''ROLLBACK''
       \<lparr>resultStatus = PGRES_COMMAND_OK, resultErrorMessage = [], tuples = []\<rparr>,
     EvPQfinish (PGconn 16),
     EvPQexec (PGconn 19) ''COMMIT''
       \<lparr>resultStatus = PGRES_COMMAND_OK, resultErrorMessage = [], tuples = []\<rparr>,
     EvPQfinish (PGconn 19),
     EvFindMyExec ''/usr/pgsql-9.4/bin/postgres'' 0 ''/usr/pgsql-9.4/bin/postgres'',
     EvPopen (dq @ ''/usr/pgsql-9.4/bin/pg_restore'' @ dq @ '' -V'')
       (FgetsLine (''pg_tool (PostgreSQL) 9.4.1'' @ nl)),
     EvSystem (''/usr/pgsql-9.4/bin/pg_restore --section='' @ dq @ ''post-data'' @ dq
       @ '' --exit-on-error -1 -d '' @ dq @ ''host=target dbname=postgres'' @ dq @ '' '' @ dq
       @ ''/tmp/pglogical.dump'' @ dq) 0,
     EvSet_node_status 2 NODE_STATUS_SLOTS,
     EvSet_node_status 2 NODE_STATUS_CATCHUP,
     EvSet_node_status 2 NODE_STATUS_CONNECT_BACK,
     EvSet_node_status 2 NODE_STATUS_READY,
     EvPQconnectdb (''host=origin dbname=postgres fallback_application_name='' @ sq
       @ ''pglogical_init'' @ sq) (PGconn 40) True,
     EvSet_remote_node_status (PGconn 40) ''subscriber1'' NODE_STATUS_READY,
     EvPQfinish (PGconn 40),
     EvElog INFO ''finished init_replica, ready to enter normal replication'']"


section \<open>Properties\<close>

subsection \<open>Sequencing\<close>

lemma ret_apply [simp]: "ret x h = ([], Inr x)"
  by (simp add: ret_def)

lemma raise_apply [simp]: "raise f h = ([], Inl f)"
  by (simp add: raise_def)

lemma emit_apply [simp]: "emit ev h = ([ev], Inr ())"
  by (simp add: emit_def)

lemma call_apply [simp]: "call answer evs h = (evs (answer h), Inr (answer h))"
  by (simp add: call_def)

lemma bindE_apply:
  "bindE m f h = (case m h of
      (e1, Inl x) \<Rightarrow> (e1, Inl x)
    | (e1, Inr a) \<Rightarrow> (case f a (h @ e1) of (e2, r) \<Rightarrow> (e1 @ e2, r)))"
  by (simp add: bindE_def)

lemma bindE_Inl: "m h = (e1, Inl x) \<Longrightarrow> bindE m f h = (e1, Inl x)"
  by (simp add: bindE_def)

lemma bindE_Inr:
  "m h = (e1, Inr a) \<Longrightarrow> bindE m f h = (e1 @ fst (f a (h @ e1)), snd (f a (h @ e1)))"
  by (simp add: bindE_def split: prod.splits)

lemma bindE_ret [simp]: "bindE (ret x) f h = f x h"
  by (simp add: bindE_def)

lemma bindE_raise [simp]: "bindE (raise e) f h = ([], Inl e)"
  by (simp add: bindE_def)

lemma bindE_emit [simp]:
  "bindE (emit ev) f h = (ev # fst (f () (h @ [ev])), snd (f () (h @ [ev])))"
  by (simp add: bindE_def split: prod.splits)

lemma bindE_call [simp]:
  "bindE (call answer evs) f h =
     (evs (answer h) @ fst (f (answer h) (h @ evs (answer h))),
      snd (f (answer h) (h @ evs (answer h))))"
  by (simp add: bindE_def split: prod.splits)

lemma bindE_cases:
  assumes "bindE m f h = (evs, r)"
  obtains (failed) x where "m h = (evs, Inl x)" and "r = Inl x"
    | (passed) e1 a e2 where "m h = (e1, Inr a)" and "f a (h @ e1) = (e2, r)"
        and "evs = e1 @ e2"
  using assms by (auto simp: bindE_def split: prod.splits sum.splits)

lemma bindE_assoc: "bindE (bindE m f) g = bindE m (\<lambda>x. bindE (f x) g)"
  by (rule ext) (simp add: bindE_def split: prod.splits sum.splits)

lemma elog_simps [simp]:
  "elog INFO msg = emit (EvElog INFO msg)"
  "elog WARNING msg = emit (EvElog WARNING msg)"
  "elog ERROR msg = raise (Ereport ERROR msg None)"
  "elog FATAL msg = raise (Ereport FATAL msg None)"
  by (simp_all add: elog_def ereport_def)

lemma ereport_simps [simp]:
  "ereport INFO msg d = emit (EvElog INFO msg)"
  "ereport WARNING msg d = emit (EvElog WARNING msg)"
  "ereport ERROR msg d = raise (Ereport ERROR msg d)"
  "ereport FATAL msg d = raise (Ereport FATAL msg d)"
  by (simp_all add: ereport_def)

subsection \<open>The entry check of pglogical\_init\_replica\<close>

lemma init_replica_nonrecoverable:
  assumes "node_status (target conn) \<notin> {NODE_STATUS_INIT, NODE_STATUS_SLOTS,
             NODE_STATUS_CATCHUP, NODE_STATUS_CONNECT_BACK}"
  shows "pglogical_init_replica w conn h = ([], Inl (Ereport ERROR
           ''node initialization failed during nonrecoverable step, please try the setup again''
           None))"
  using assms
  by (cases "node_status (target conn)") (simp_all add: pglogical_init_replica_def Let_def)

text \<open>
  C10. A node whose persisted status is already \<open>READY\<close> is rejected: the call
  raises the error of the non-recoverable step and does nothing else, no event at all.
\<close>

theorem ready_node_is_rejected:
  "node_status (target conn) = NODE_STATUS_READY \<Longrightarrow>
   pglogical_init_replica w conn h = ([], Inl (Ereport ERROR
     ''node initialization failed during nonrecoverable step, please try the setup again''
     None))"
  by (simp add: init_replica_nonrecoverable)

theorem ready_node_is_rejected_witness:
  "node_status (target (conn_at NODE_STATUS_READY)) = NODE_STATUS_READY \<and>
   pglogical_init_replica world0 (conn_at NODE_STATUS_READY) [] = ([], Inl (Ereport ERROR
     ''node initialization failed during nonrecoverable step, please try the setup again''
     None))"
  using ready_node_is_rejected [of "conn_at NODE_STATUS_READY" world0 "[]"]
  by (simp add: conn_at_def)

text \<open>
  C1, the counterexample. In the concrete world, the call for a node whose persisted
  status is \<open>SYNC_SCHEMA\<close> does not resume at that phase: it raises the error of the
  non-recoverable step, and no event precedes it.
\<close>

theorem sync_schema_is_not_resumed_counterexample:
  "pglogical_init_replica world0 (conn_at NODE_STATUS_SYNC_SCHEMA) [] = ([], Inl (Ereport ERROR
     ''node initialization failed during nonrecoverable step, please try the setup again''
     None))"
  by (simp add: init_replica_nonrecoverable conn_at_def)

text \<open>
  C1, as the code has it. For every world, history and connection record whose target
  node has the persisted status \<open>SYNC_SCHEMA\<close>, the call does not resume the bootstrap
  from that phase: it raises the error of the non-recoverable step, of level \<open>ERROR\<close>,
  and does nothing before it, no event at all.
\<close>

theorem sync_schema_is_rejected:
  "node_status (target conn) = NODE_STATUS_SYNC_SCHEMA \<Longrightarrow>
   pglogical_init_replica w conn h = ([], Inl (Ereport ERROR
     ''node initialization failed during nonrecoverable step, please try the setup again''
     None))"
  by (simp add: init_replica_nonrecoverable)

theorem sync_schema_is_rejected_witness:
  "node_status (target (conn_at NODE_STATUS_SYNC_SCHEMA)) = NODE_STATUS_SYNC_SCHEMA \<and>
   pglogical_init_replica world_tool_14_2 (conn_at NODE_STATUS_SYNC_SCHEMA) [] = ([], Inl (Ereport ERROR
     ''node initialization failed during nonrecoverable step, please try the setup again''
     None))"
  using sync_schema_is_rejected [of "conn_at NODE_STATUS_SYNC_SCHEMA" world_tool_14_2 "[]"]
  by (simp add: conn_at_def)

subsection \<open>Which events a function adds\<close>

lemma emitsD: "emits P m \<Longrightarrow> m h = (evs, r) \<Longrightarrow> list_all P evs"
  by (auto simp: emits_def dest: spec [of _ h])

lemma emits_weaken: "emits P m \<Longrightarrow> (\<And>ev. P ev \<Longrightarrow> Q ev) \<Longrightarrow> emits Q m"
  by (auto simp: emits_def list_all_iff)

lemma emits_ret [simp]: "emits P (ret x)"
  by (simp add: emits_def)

lemma emits_raise [simp]: "emits P (raise f)"
  by (simp add: emits_def)

lemma emits_emit [simp]: "emits P (emit ev) = P ev"
  by (simp add: emits_def)

lemma emits_call [simp]: "emits P (call answer evs) = (\<forall>h. list_all P (evs (answer h)))"
  by (simp add: emits_def)

lemma emits_bindE: "emits P m \<Longrightarrow> (\<And>a. emits P (f a)) \<Longrightarrow> emits P (bindE m f)"
  by (auto simp: emits_def bindE_def split: prod.splits sum.splits)
    (metis fst_conv)+

lemma emits_CHECK [simp]: "emits P (CHECK_FOR_INTERRUPTS w)"
  by (simp add: emits_def CHECK_FOR_INTERRUPTS_def split: option.splits)

lemma emits_if: "(c \<Longrightarrow> emits P m) \<Longrightarrow> (\<not> c \<Longrightarrow> emits P n) \<Longrightarrow> emits P (if c then m else n)"
  by simp

lemma emits_prod: "(\<And>a b. emits P (f a b)) \<Longrightarrow> emits P (case x of (a, b) \<Rightarrow> f a b)"
  by (cases x) simp

lemma emits_find_other_exec_version:
  "emits (\<lambda>ev. kind_of ev = KTool) (find_other_exec_version w argv0 prog)"
  unfolding find_other_exec_version_def Let_def
  by (intro emits_bindE emits_prod emits_if)
    (auto split: option.splits pipe_output.splits prod.splits intro!: emits_bindE)

lemma find_other_exec_version_found:
  assumes "find_other_exec_version w argv0 prog h = (evs, Inr (Inr (version, path)))"
  shows "\<exists>rc p cmd line. evs = [EvFindMyExec argv0 rc p, EvPopen cmd (FgetsLine line)]"
  using assms unfolding find_other_exec_version_def Let_def
  by (auto split: prod.splits if_splits option.splits pipe_output.splits)

subsection \<open>The version check of the dump and restore tools\<close>

lemma dump_structure_mismatch:
  assumes "find_other_exec_version w (my_exec_path w) ''pg_dump'' h
             = (evs, Inr (Inr (version, tool)))"
    and "version div 100 \<noteq> word_of_nat (PG_VERSION_NUM w div 100)"
  shows "dump_structure w conn snapshot h = (evs, Inl (Ereport ERROR
           (''bdr node init found pg_dump with wrong major version ''
            @ fmt_d (sint (version div 100 div 100)) @ ''.''
            @ fmt_d (sint (version div 100 mod 100)) @ '', expected ''
            @ fmt_d (int (PG_VERSION_NUM w div 100 div 100)) @ ''.''
            @ fmt_d (int (PG_VERSION_NUM w div 100 mod 100))) None))"
  using assms by (simp add: dump_structure_def bindE_def)

lemma restore_structure_mismatch:
  assumes "find_other_exec_version w (my_exec_path w) ''pg_restore'' h
             = (evs, Inr (Inr (version, tool)))"
    and "version div 100 \<noteq> word_of_nat (PG_VERSION_NUM w div 100)"
  shows "restore_structure w conn section_name h = (evs, Inl (Ereport ERROR
           (''bdr node init found pg_restore with wrong major version ''
            @ fmt_d (sint (version div 100 div 100)) @ ''.''
            @ fmt_d (sint (version div 100 mod 100)) @ '', expected ''
            @ fmt_d (int (PG_VERSION_NUM w div 100 div 100)) @ ''.''
            @ fmt_d (int (PG_VERSION_NUM w div 100 mod 100))) None))"
  using assms by (simp add: restore_structure_def bindE_def)

text \<open>
  C5. The tool has been located and has reported a version, \<open>version\<close> being
  \<open>(pre_dot * 100 + post_dot) * 100\<close> as \<open>find_other_exec_version\<close> computes it. When
  its major version, \<open>version / 100\<close>, is not that of the server,
  \<open>PG_VERSION_NUM / 100\<close>, then \<open>dump_structure\<close> ends with an error of level
  \<open>ERROR\<close>, and all it has done before is what located the tool: the call of
  \<open>find_my_exec\<close> and the \<open>-V\<close> run of the tool. No \<open>system\<close> call of the dump
  command, no statement on a session and no change of the node status are among the
  events. The same holds for \<open>restore_structure\<close> and its tool.
\<close>

theorem tool_of_other_major_version_aborts:
  "(find_other_exec_version w (my_exec_path w) ''pg_dump'' h
      = (evs, Inr (Inr (version, tool)))
    \<and> version div 100 \<noteq> word_of_nat (PG_VERSION_NUM w div 100) \<longrightarrow>
    (\<exists>msg. dump_structure w conn snapshot h = (evs, Inl (Ereport ERROR msg None)))
    \<and> (\<exists>rc p cmd line. evs = [EvFindMyExec (my_exec_path w) rc p,
                                EvPopen cmd (FgetsLine line)]))
 \<and> (find_other_exec_version w (my_exec_path w) ''pg_restore'' h'
      = (evs', Inr (Inr (version', tool')))
    \<and> version' div 100 \<noteq> word_of_nat (PG_VERSION_NUM w div 100) \<longrightarrow>
    (\<exists>msg. restore_structure w conn section_name h' = (evs', Inl (Ereport ERROR msg None)))
    \<and> (\<exists>rc p cmd line. evs' = [EvFindMyExec (my_exec_path w) rc p,
                                 EvPopen cmd (FgetsLine line)]))"
  by (auto simp: dump_structure_mismatch restore_structure_mismatch
      dest: find_other_exec_version_found)

lemmas scan_defs = sscanf_version_def scan_skip_s_def scan_d_def isspace_def isdigit_def
  digit_val_def last_dir_separator_def

lemma world_tool_14_2_finds:
  "prog = ''pg_dump'' \<or> prog = ''pg_restore'' \<Longrightarrow>
   find_other_exec_version world_tool_14_2 ''/usr/pgsql-9.4/bin/postgres'' prog h =
     ([EvFindMyExec ''/usr/pgsql-9.4/bin/postgres'' 0 ''/usr/pgsql-9.4/bin/postgres'',
       EvPopen (dq @ ''/usr/pgsql-9.4/bin/'' @ prog @ dq @ '' -V'')
         (FgetsLine (''pg_dump (PostgreSQL) 14.2'' @ nl))],
      Inr (Inr (140200, ''/usr/pgsql-9.4/bin/'' @ prog)))"
  by (auto simp: find_other_exec_version_def world_tool_14_2_def world0_def scan_defs
      dq_def nl_def Let_def)

theorem tool_of_other_major_version_aborts_witness:
  "(\<exists>msg. dump_structure world_tool_14_2 conn0 ''00000003-00000002-1'' []
      = ([EvFindMyExec ''/usr/pgsql-9.4/bin/postgres'' 0 ''/usr/pgsql-9.4/bin/postgres'',
          EvPopen (dq @ ''/usr/pgsql-9.4/bin/pg_dump'' @ dq @ '' -V'')
            (FgetsLine (''pg_dump (PostgreSQL) 14.2'' @ nl))],
         Inl (Ereport ERROR msg None)))
   \<and> (\<exists>msg. restore_structure world_tool_14_2 conn0 ''pre-data'' []
      = ([EvFindMyExec ''/usr/pgsql-9.4/bin/postgres'' 0 ''/usr/pgsql-9.4/bin/postgres'',
          EvPopen (dq @ ''/usr/pgsql-9.4/bin/pg_restore'' @ dq @ '' -V'')
            (FgetsLine (''pg_dump (PostgreSQL) 14.2'' @ nl))],
         Inl (Ereport ERROR msg None)))"
proof -
  have path: "my_exec_path world_tool_14_2 = ''/usr/pgsql-9.4/bin/postgres''"
    and num: "PG_VERSION_NUM world_tool_14_2 = 150004"
    by (simp_all add: world_tool_14_2_def world0_def)
  have differ: "(140200 :: 32 word) div 100 \<noteq> word_of_nat (150004 div 100)"
    by simp
  note found = world_tool_14_2_finds [of "''pg_dump''" "[]"]
    world_tool_14_2_finds [of "''pg_restore''" "[]"]
  show ?thesis
    using tool_of_other_major_version_aborts [of world_tool_14_2 "[]" _ 140200 _ conn0
        "''00000003-00000002-1''" "[]" _ 140200 _ "''pre-data''"]
      found differ
    by (simp add: path num)
qed

subsection \<open>The statements that embed names\<close>

lemma append_repset_names_concat:
  "append_repset_names repsetarr sets = repsetarr @ concat (map repset_name sets)"
  by (induction sets arbitrary: repsetarr) simp_all

lemma get_copy_tables_sends:
  "fst (get_copy_tables w origin_conn sets h) =
     [EvPQexec origin_conn
        (''SELECT nspname, relname FROM '' @ EXTENSION_NAME w
         @ ''.tables WHERE set_name = ANY(''
         @ PQescapeLiteral w origin_conn (''{'' @ concat (map repset_name sets) @ ''}'') @ '')'')
        (PQexec w h origin_conn
          (''SELECT nspname, relname FROM '' @ EXTENSION_NAME w
           @ ''.tables WHERE set_name = ANY(''
           @ PQescapeLiteral w origin_conn (''{'' @ concat (map repset_name sets) @ ''}'') @ '')''))]"
  by (simp add: get_copy_tables_def do_PQexec_def Let_def append_repset_names_concat
      split: sum.splits)

text \<open>
  C2, at two replication sets. The names \<open>default\<close> and \<open>ddl_sql\<close> arrive at the
  origin as the array literal \<open>{defaultddl_sql}\<close>, which has the single element
  \<open>defaultddl_sql\<close>: the loop appends the names with nothing between them.
\<close>

theorem two_replication_sets_one_element:
  "fst (get_copy_tables world0 (PGconn 0)
          [\<lparr>repset_name = ''default''\<rparr>, \<lparr>repset_name = ''ddl_sql''\<rparr>] []) =
     [EvPQexec (PGconn 0)
        (''SELECT nspname, relname FROM pglogical.tables WHERE set_name = ANY('' @ sq
         @ ''{defaultddl_sql}'' @ sq @ '')'')
        \<lparr>resultStatus = PGRES_TUPLES_OK, resultErrorMessage = [],
          tuples = [[''public'', ''accounts'']]\<rparr>]
   \<and> array_literal_elements ''{defaultddl_sql}'' = [''defaultddl_sql'']"
  by (simp add: get_copy_tables_sends world0_def world0_PQexec_def libpq_escape_literal_def
      array_literal_elements_def sq_def)

lemma ensure_replication_slot_snapshot_sends:
  "fst (ensure_replication_slot_snapshot w origin_conn slot_name h) =
     [EvPQexec origin_conn
        (''CREATE_REPLICATION_SLOT '' @ dq @ slot_name @ dq @ '' LOGICAL pg_logical_output'')
        (PQexec w h origin_conn
          (''CREATE_REPLICATION_SLOT '' @ dq @ slot_name @ dq @ '' LOGICAL pg_logical_output''))]"
  by (simp add: ensure_replication_slot_snapshot_def do_PQexec_def Let_def
      split: sum.splits option.splits)

lemma copy_table_data_sends_first:
  "take 1 (fst (copy_table_data w origin_conn target_conn nspname rel h)) =
     [EvPQexec origin_conn
        (''COPY '' @ PQescapeIdentifier w origin_conn nspname @ ''.''
         @ PQescapeIdentifier w origin_conn rel @ '' TO stdout'')
        (PQexec w h origin_conn
          (''COPY '' @ PQescapeIdentifier w origin_conn nspname @ ''.''
           @ PQescapeIdentifier w origin_conn rel @ '' TO stdout''))]"
  by (simp add: copy_table_data_def do_PQexec_def Let_def)

text \<open>
  C9, as the code has it. The counterexample: for the slot name \<open>a"b\<close> the command
  that is sent holds the name as it is between two double quotes, and the text that
  the session's \<open>PQescapeIdentifier\<close> gives for the name does not occur in it.
\<close>

theorem slot_name_is_sent_raw_counterexample:
  "fst (ensure_replication_slot_snapshot world0 (PGconn 0) (''a'' @ dq @ ''b'') []) =
     [EvPQexec (PGconn 0)
        (''CREATE_REPLICATION_SLOT '' @ dq @ ''a'' @ dq @ ''b'' @ dq
         @ '' LOGICAL pg_logical_output'')
        \<lparr>resultStatus = PGRES_TUPLES_OK, resultErrorMessage = [],
          tuples = [[''pgl_postgres_provider1_subscriber1'', ''0/16B3748'',
                     ''00000003-00000002-1'', ''pg_logical_output'']]\<rparr>]
   \<and> PQescapeIdentifier world0 (PGconn 0) (''a'' @ dq @ ''b'') = dq @ ''a'' @ dq @ dq @ ''b'' @ dq
   \<and> \<not> sublist (PQescapeIdentifier world0 (PGconn 0) (''a'' @ dq @ ''b''))
         (''CREATE_REPLICATION_SLOT '' @ dq @ ''a'' @ dq @ ''b'' @ dq
          @ '' LOGICAL pg_logical_output'')"
  by (simp add: ensure_replication_slot_snapshot_sends world0_def world0_PQexec_def
      libpq_escape_identifier_def dq_def sublist_code)

text \<open>
  C9, amended. The statement that starts the copy of a table on the origin embeds the
  schema and the table name through \<open>PQescapeIdentifier\<close> of the origin session; the
  statement that selects the tables embeds the array of the replication set names
  through \<open>PQescapeLiteral\<close> of the origin session; the command that creates the slot
  embeds the slot name as it is, between double quotes.
\<close>

theorem names_in_statements:
  "take 1 (fst (copy_table_data w origin_conn target_conn nspname rel h)) =
     [EvPQexec origin_conn
        (''COPY '' @ PQescapeIdentifier w origin_conn nspname @ ''.''
         @ PQescapeIdentifier w origin_conn rel @ '' TO stdout'')
        (PQexec w h origin_conn
          (''COPY '' @ PQescapeIdentifier w origin_conn nspname @ ''.''
           @ PQescapeIdentifier w origin_conn rel @ '' TO stdout''))]
   \<and> fst (get_copy_tables w origin_conn sets h) =
     [EvPQexec origin_conn
        (''SELECT nspname, relname FROM '' @ EXTENSION_NAME w
         @ ''.tables WHERE set_name = ANY(''
         @ PQescapeLiteral w origin_conn (''{'' @ concat (map repset_name sets) @ ''}'') @ '')'')
        (PQexec w h origin_conn
          (''SELECT nspname, relname FROM '' @ EXTENSION_NAME w
           @ ''.tables WHERE set_name = ANY(''
           @ PQescapeLiteral w origin_conn (''{'' @ concat (map repset_name sets) @ ''}'') @ '')''))]
   \<and> fst (ensure_replication_slot_snapshot w origin_conn slot_name h) =
     [EvPQexec origin_conn
        (''CREATE_REPLICATION_SLOT '' @ dq @ slot_name @ dq @ '' LOGICAL pg_logical_output'')
        (PQexec w h origin_conn
          (''CREATE_REPLICATION_SLOT '' @ dq @ slot_name @ dq @ '' LOGICAL pg_logical_output''))]"
  by (simp only: copy_table_data_sends_first get_copy_tables_sends
      ensure_replication_slot_snapshot_sends simp_thms)

theorem names_in_statements_witness:
  "take 1 (fst (copy_table_data world0 (PGconn 0) (PGconn 1) ''public'' ''accounts'' [])) =
     [EvPQexec (PGconn 0)
        (''COPY '' @ dq @ ''public'' @ dq @ ''.'' @ dq @ ''accounts'' @ dq @ '' TO stdout'')
        \<lparr>resultStatus = PGRES_COPY_OUT, resultErrorMessage = [], tuples = []\<rparr>]
   \<and> fst (get_copy_tables world0 (PGconn 0) [\<lparr>repset_name = ''default''\<rparr>] []) =
     [EvPQexec (PGconn 0)
        (''SELECT nspname, relname FROM pglogical.tables WHERE set_name = ANY('' @ sq
         @ ''{default}'' @ sq @ '')'')
        \<lparr>resultStatus = PGRES_TUPLES_OK, resultErrorMessage = [],
          tuples = [[''public'', ''accounts'']]\<rparr>]
   \<and> fst (ensure_replication_slot_snapshot world0 (PGconn 0) ''pgl_postgres_provider1_subscriber1'' []) =
     [EvPQexec (PGconn 0)
        (''CREATE_REPLICATION_SLOT '' @ dq @ ''pgl_postgres_provider1_subscriber1'' @ dq
         @ '' LOGICAL pg_logical_output'')
        \<lparr>resultStatus = PGRES_TUPLES_OK, resultErrorMessage = [],
          tuples = [[''pgl_postgres_provider1_subscriber1'', ''0/16B3748'',
                     ''00000003-00000002-1'', ''pg_logical_output'']]\<rparr>]"
  using names_in_statements [of world0 "PGconn 0" "PGconn 1" "''public''" "''accounts''" "[]"
      "[\<lparr>repset_name = ''default''\<rparr>]" "''pgl_postgres_provider1_subscriber1''"]
  by (simp add: world0_def world0_PQexec_def libpq_escape_identifier_def
      libpq_escape_literal_def dq_def sq_def)

subsection \<open>The copy of one table\<close>

lemma bindE_ret_fun [simp]: "bindE (ret x) f = f x"
  by (rule ext) simp

lemma bindE_raise_fun [simp]: "bindE (raise e) f = raise e"
  by (rule ext) simp


lemma bindE_call_cases:
  assumes "bindE (call answer ev) f h = (evs, r)"
  obtains (called) e2 where "f (answer h) (h @ ev (answer h)) = (e2, r)"
    and "evs = ev (answer h) @ e2"
  using assms by (auto simp: bindE_def split: prod.splits)



lemma bindE_fatal_guard_cases:
  assumes "bindE (if c then bindE (call answer (\<lambda>m. [])) (\<lambda>m. ereport FATAL msg (d m))
                  else ret ()) f h = (evs, r)"
  obtains (abort) "c" and "evs = []" and "r = Inl (Ereport FATAL msg (d (answer h)))"
    | (pass) "\<not> c" and "f () h = (evs, r)"
  using assms by (cases c) (auto simp: bindE_assoc)

lemma bindE_elog_guard_cases:
  assumes "bindE (if c then raise x else ret ()) f h = (evs, r)"
  obtains (abort) "c" and "evs = []" and "r = Inl x"
    | (pass) "\<not> c" and "f () h = (evs, r)"
  using assms by (cases c) auto



lemmas world0_simps = world0_def world0_PQexec_def libpq_escape_identifier_def
  libpq_escape_literal_def dq_def sq_def nl_def







subsection \<open>The end of the copy\<close>

lemma holdsD: "holds Q m \<Longrightarrow> m h = (evs, r) \<Longrightarrow> Q evs r"
  by (auto simp: holds_def dest: spec [of _ h])

lemma holds_bindE_prefix:
  assumes "emits P m" and "\<And>a. holds Q (f a)"
    and "\<And>e1 e2 r. list_all P e1 \<Longrightarrow> Q e2 r \<Longrightarrow> Q (e1 @ e2) r"
    and "\<And>e1 x. list_all P e1 \<Longrightarrow> Q e1 (Inl x)"
  shows "holds Q (bindE m f)"
  unfolding holds_def
proof
  fix h
  obtain e1 r1 where m: "m h = (e1, r1)" by (cases "m h")
  with assms(1) have e1: "list_all P e1" by (auto dest: emitsD)
  show "Q (fst (bindE m f h)) (snd (bindE m f h))"
  proof (cases r1)
    case (Inl x)
    with m e1 assms(4) show ?thesis by (simp add: bindE_def)
  next
    case (Inr a)
    with m have "bindE m f h = (e1 @ fst (f a (h @ e1)), snd (f a (h @ e1)))"
      by (simp add: bindE_Inr)
    moreover from assms(2) have "Q (fst (f a (h @ e1))) (snd (f a (h @ e1)))"
      by (simp add: holds_def)
    ultimately show ?thesis using assms(3) e1 by simp
  qed
qed

lemma emits_const [simp]: "emits P (\<lambda>h. (evs, r)) = list_all P evs"
  by (simp add: emits_def)

lemma not_tx_end_kind [simp]: "kind_of ev \<noteq> KExec \<Longrightarrow> not_tx_end ev"
  by (cases ev) (simp_all add: not_tx_end_def)

lemma emits_pg_connect: "emits (\<lambda>ev. kind_of ev = KConnect) (pg_connect w connstring connname)"
  unfolding pg_connect_def Let_def
  by (intro emits_bindE emits_prod emits_if) (auto split: prod.splits)

lemma emits_pg_connect_replica:
  "emits (\<lambda>ev. kind_of ev = KConnect) (pg_connect_replica w connstring connname)"
  unfolding pg_connect_replica_def Let_def
  by (intro emits_bindE emits_prod emits_if) (auto split: prod.splits)

lemma emits_start_copy_origin_tx:
  "emits (\<lambda>ev. kind_of ev = KExec \<and> not_tx_end ev) (start_copy_origin_tx w c snapshot)"
  unfolding start_copy_origin_tx_def Let_def do_PQexec_def
  by (intro emits_bindE emits_if) (auto simp: not_tx_end_def)

lemma emits_start_copy_target_tx:
  "emits (\<lambda>ev. kind_of ev = KExec \<and> not_tx_end ev) (start_copy_target_tx w c snapshot)"
  unfolding start_copy_target_tx_def Let_def do_PQexec_def
  by (intro emits_bindE emits_if) (auto simp: not_tx_end_def)

lemma emits_get_copy_tables:
  "emits (\<lambda>ev. kind_of ev = KExec \<and> not_tx_end ev) (get_copy_tables w c sets)"
  unfolding get_copy_tables_def Let_def do_PQexec_def
  by (intro emits_bindE emits_if) (auto simp: not_tx_end_def split: sum.splits)

lemma emits_copy_table_rows:
  "emits (\<lambda>ev. kind_of ev = KCopy) (copy_table_rows w oc tc rows fin)"
proof (induction rows)
  case Nil
  show ?case unfolding copy_table_rows.simps
    by (intro emits_bindE) simp_all
next
  case (Cons copybuf rest)
  show ?case unfolding copy_table_rows.simps Let_def
    by (intro emits_bindE emits_if Cons.IH) simp_all
qed

lemma emits_copy_table_data:
  "emits (\<lambda>ev. (kind_of ev = KExec \<or> kind_of ev = KCopy) \<and> not_tx_end ev)
     (copy_table_data w oc tc nspname rel)"
  unfolding copy_table_data_def Let_def do_PQexec_def
  by (intro emits_bindE emits_if emits_prod
      emits_weaken [OF emits_copy_table_rows])
    (auto simp: not_tx_end_def split: event.splits)

lemma emits_copy_tables:
  "emits (\<lambda>ev. (kind_of ev = KExec \<or> kind_of ev = KCopy) \<and> not_tx_end ev)
     (copy_tables w oc tc tables)"
proof (induction tables)
  case Nil
  show ?case by simp
next
  case (Cons rv rest)
  show ?case unfolding copy_tables.simps
    by (intro emits_bindE emits_copy_table_data Cons.IH) simp_all
qed


lemma tx_end_post_prefix:
  "list_all not_tx_end e1 \<Longrightarrow> tx_end_post e2 r \<Longrightarrow> tx_end_post (e1 @ e2) r"
  unfolding tx_end_post_def list_all_iff
  by (auto simp: not_tx_end_def split: event.splits) blast+

lemma tx_end_post_none: "list_all not_tx_end e1 \<Longrightarrow> tx_end_post e1 r"
  unfolding tx_end_post_def list_all_iff
  by (auto simp: not_tx_end_def split: event.splits)

lemma holds_finish:
  "holds tx_end_post
     (bindE (do_PQexec w origin_conn ''ROLLBACK'') (\<lambda>res.
      bindE (if resultStatus res \<noteq> PGRES_COMMAND_OK
             then elog WARNING (''ROLLBACK on origin node failed: '' @ resultErrorMessage res)
             else ret ()) (\<lambda>u.
      bindE (emit (EvPQfinish origin_conn)) (\<lambda>u.
      bindE (do_PQexec w target_conn ''COMMIT'') (\<lambda>res.
      bindE (if resultStatus res \<noteq> PGRES_COMMAND_OK
             then elog ERROR (''COMMIT on target node failed: '' @ resultErrorMessage res)
             else ret ()) (\<lambda>u.
      emit (EvPQfinish target_conn)))))))"
  by (auto simp: holds_def tx_end_post_def do_PQexec_def)

lemma holds_copy_node_data: "holds tx_end_post (copy_node_data w conn snapshot)"
  unfolding copy_node_data_def
  apply (rule holds_bindE_prefix [where P = not_tx_end, OF emits_weaken [OF emits_pg_connect]])
  apply simp
  apply (rule holds_bindE_prefix [where P = not_tx_end, OF emits_weaken [OF emits_start_copy_origin_tx]])
  apply simp
  apply (rule holds_bindE_prefix [where P = not_tx_end, OF emits_weaken [OF emits_get_copy_tables]])
  apply simp
  apply (rule holds_bindE_prefix [where P = not_tx_end, OF emits_weaken [OF emits_pg_connect]])
  apply simp
  apply (rule holds_bindE_prefix [where P = not_tx_end, OF emits_weaken [OF emits_start_copy_target_tx]])
  apply simp
  apply (rule holds_bindE_prefix [where P = not_tx_end, OF emits_weaken [OF emits_copy_tables]])
  apply simp
  apply (rule holds_finish)
  apply (simp_all add: tx_end_post_prefix tx_end_post_none)
  done


lemma bindE_const_Inr [simp]:
  "bindE (\<lambda>h. (evs, Inr x)) f h' = (evs @ fst (f x (h' @ evs)), snd (f x (h' @ evs)))"
  by (simp add: bindE_def split: prod.splits)

lemma bindE_const_Inl [simp]: "bindE (\<lambda>h. (evs, Inl x)) f h' = (evs, Inl x)"
  by (simp add: bindE_def)

lemmas copy_node_data_eval = copy_node_data_def pg_connect_def start_copy_origin_tx_def
  start_copy_target_tx_def get_copy_tables_def get_copy_tables_loop.simps PQgetvalue_def
  PQntuples_def copy_table_data_def do_PQexec_def Let_def CHECK_FOR_INTERRUPTS_def
  failed_result_def

text \<open>
  C6. In every run of \<open>copy_node_data\<close>: a \<open>ROLLBACK\<close> on the origin that does not
  return \<open>PGRES_COMMAND_OK\<close> leaves a warning in the log and is followed by the
  \<open>COMMIT\<close> on the target; and the outcome of the run is that of the \<open>COMMIT\<close> alone,
  the normal return when it succeeds, an error of level \<open>ERROR\<close> when it fails.
\<close>

theorem rollback_warns_commit_aborts:
  assumes "copy_node_data w conn snapshot h = (evs, r)"
  shows "(\<forall>c res. EvPQexec c ''ROLLBACK'' res \<in> set evs \<longrightarrow>
          resultStatus res \<noteq> PGRES_COMMAND_OK \<longrightarrow>
          EvElog WARNING (''ROLLBACK on origin node failed: '' @ resultErrorMessage res) \<in> set evs
          \<and> (\<exists>c' res'. EvPQexec c' ''COMMIT'' res' \<in> set evs))
      \<and> (\<forall>c res. EvPQexec c ''COMMIT'' res \<in> set evs \<longrightarrow>
          r = (if resultStatus res = PGRES_COMMAND_OK then Inr ()
               else Inl (Ereport ERROR
                      (''COMMIT on target node failed: '' @ resultErrorMessage res) None)))"
  using holdsD [OF holds_copy_node_data assms] by (simp add: tx_end_post_def)

lemma world_rollback_fails_run: "EvPQexec (PGconn 0) ''ROLLBACK'' failed_result
     \<in> set (fst (copy_node_data world_rollback_fails conn0 ''00000003-00000002-1'' []))
   \<and> EvPQexec (PGconn 3) ''COMMIT''
        \<lparr>resultStatus = PGRES_COMMAND_OK, resultErrorMessage = [], tuples = []\<rparr>
     \<in> set (fst (copy_node_data world_rollback_fails conn0 ''00000003-00000002-1'' []))"
  by (simp add: copy_node_data_eval world_rollback_fails_def world0_simps conn0_def origin0_def target0_def
      bindE_apply del: bindE_emit bindE_call bindE_const_Inr)

lemma world_commit_fails_run: "EvPQexec (PGconn 3) ''COMMIT'' failed_result
     \<in> set (fst (copy_node_data world_commit_fails conn0 ''00000003-00000002-1'' []))"
  by (simp add: copy_node_data_eval world_commit_fails_def world0_simps conn0_def origin0_def target0_def
      bindE_apply del: bindE_emit bindE_call bindE_const_Inr)


theorem rollback_warns_commit_aborts_witness:
  "EvElog WARNING ''ROLLBACK on origin node failed: server closed the connection unexpectedly''
     \<in> set (fst (copy_node_data world_rollback_fails conn0 ''00000003-00000002-1'' []))
   \<and> snd (copy_node_data world_rollback_fails conn0 ''00000003-00000002-1'' []) = Inr ()
   \<and> snd (copy_node_data world_commit_fails conn0 ''00000003-00000002-1'' []) =
       Inl (Ereport ERROR
         ''COMMIT on target node failed: server closed the connection unexpectedly'' None)"
proof -
  note rb = rollback_warns_commit_aborts [where w = world_rollback_fails and conn = conn0
      and snapshot = "''00000003-00000002-1''" and h = "[]", OF surjective_pairing]
  note cm = rollback_warns_commit_aborts [where w = world_commit_fails and conn = conn0
      and snapshot = "''00000003-00000002-1''" and h = "[]", OF surjective_pairing]
  from rb [THEN conjunct1, rule_format, OF world_rollback_fails_run [THEN conjunct1]]
  have warned: "EvElog WARNING
      ''ROLLBACK on origin node failed: server closed the connection unexpectedly''
     \<in> set (fst (copy_node_data world_rollback_fails conn0 ''00000003-00000002-1'' []))"
    by (simp add: failed_result_def)
  from rb [THEN conjunct2, rule_format, OF world_rollback_fails_run [THEN conjunct2]]
  have continued: "snd (copy_node_data world_rollback_fails conn0 ''00000003-00000002-1'' [])
      = Inr ()"
    by simp
  from cm [THEN conjunct2, rule_format, OF world_commit_fails_run]
  have aborted: "snd (copy_node_data world_commit_fails conn0 ''00000003-00000002-1'' []) =
       Inl (Ereport ERROR
         ''COMMIT on target node failed: server closed the connection unexpectedly'' None)"
    by (simp add: failed_result_def)
  from warned continued aborted show ?thesis by simp
qed

subsection \<open>The phases and the statuses they persist\<close>

lemma bindE_case_prod:
  "bindE (case x of (a, b) \<Rightarrow> f a b) g = (case x of (a, b) \<Rightarrow> bindE (f a b) g)"
  by (cases x) simp

lemma pglogical_init_replica_phases:
  "pglogical_init_replica w conn =
     bindE (entry_check (node_status (target conn))) (\<lambda>u.
     bindE (if node_status (target conn) = NODE_STATUS_INIT
            then bindE (init_transaction w conn) (sync_schema w conn)
            else ret (node_status (target conn))) (later_phases w conn))"
  unfolding pglogical_init_replica_def entry_check_def init_transaction_def
      sync_schema_def later_phases_def Let_def bindE_assoc bindE_case_prod bindE_ret_fun
  by (rule refl)


lemma persisted_append [simp]: "persisted (xs @ ys) = persisted xs @ persisted ys"
  by (induction xs) (auto split: event.splits)

lemma persisted_quiet: "list_all (\<lambda>ev. kind_of ev \<noteq> KStatus) evs \<Longrightarrow> persisted evs = []"
  by (induction evs) (auto split: event.splits)

lemma persists_ret: "R x \<Longrightarrow> persists [] R (ret x)"
  by (simp add: persists_def)

lemma persists_raise: "persists S R (raise e)"
  by (simp add: persists_def)

lemma persists_bindE:
  assumes "persists S1 R1 m" and "\<And>a. R1 a \<Longrightarrow> persists S2 R2 (f a)"
  shows "persists (S1 @ S2) R2 (bindE m f)"
  unfolding persists_def
proof (intro allI)
  fix h
  obtain e1 r1 where m: "m h = (e1, r1)" by (cases "m h")
  from assms(1) m have pre: "prefix (persisted e1) S1"
    and whole: "\<And>a. r1 = Inr a \<Longrightarrow> persisted e1 = S1 \<and> R1 a"
    by (auto simp: persists_def dest: spec [of _ h])
  show "prefix (persisted (fst (bindE m f h))) (S1 @ S2) \<and>
        (\<forall>a. snd (bindE m f h) = Inr a \<longrightarrow>
           persisted (fst (bindE m f h)) = S1 @ S2 \<and> R2 a)"
  proof (cases r1)
    case (Inl x)
    with m pre show ?thesis by (simp add: bindE_def prefix_prefix)
  next
    case (Inr a)
    from whole [OF Inr] have s1: "persisted e1 = S1" and "R1 a" by simp_all
    from assms(2) [OF \<open>R1 a\<close>] have "prefix (persisted (fst (f a (h @ e1)))) S2"
      and "\<And>b. snd (f a (h @ e1)) = Inr b \<Longrightarrow> persisted (fst (f a (h @ e1))) = S2 \<and> R2 b"
      by (auto simp: persists_def)
    with m Inr s1 show ?thesis by (simp add: bindE_Inr)
  qed
qed

lemma persists_quiet_last:
  "emits (\<lambda>ev. kind_of ev \<noteq> KStatus) m \<Longrightarrow> persists [] (\<lambda>a. True) m"
  by (simp add: persists_def emits_def persisted_quiet)

lemma persists_quiet:
  assumes "emits (\<lambda>ev. kind_of ev \<noteq> KStatus) m" and "\<And>a. persists S R (f a)"
  shows "persists S R (bindE m f)"
  using persists_bindE [OF persists_quiet_last [OF assms(1)], where ?S2.0 = S and ?R2.0 = R and f = f] assms(2) by simp

lemma persists_set_last: "persists [st] (\<lambda>a. True) (set_node_status i st)"
  by (simp add: persists_def set_node_status_def)

lemma persists_set:
  assumes "persists S R (f ())"
  shows "persists (st # S) R (bindE (set_node_status i st) f)"
  using persists_bindE [OF persists_set_last, where ?S2.0 = S and ?R2.0 = R and f = f] assms by simp

lemma persists_if:
  "(c \<Longrightarrow> persists S R m) \<Longrightarrow> (\<not> c \<Longrightarrow> persists S R n) \<Longrightarrow> persists S R (if c then m else n)"
  by simp


lemma emits_dump_structure:
  "emits (\<lambda>ev. kind_of ev = KTool \<or> kind_of ev = KSystem) (dump_structure w conn snapshot)"
  unfolding dump_structure_def Let_def
  by (intro emits_bindE emits_weaken [OF emits_find_other_exec_version])
    (auto split: sum.splits prod.splits intro!: emits_bindE)

lemma emits_restore_structure:
  "emits (\<lambda>ev. kind_of ev = KTool \<or> kind_of ev = KSystem) (restore_structure w conn sec)"
  unfolding restore_structure_def Let_def
  by (intro emits_bindE emits_weaken [OF emits_find_other_exec_version])
    (auto split: sum.splits prod.splits intro!: emits_bindE)

lemma emits_copy_node_data:
  "emits (\<lambda>ev. kind_of ev \<in> {KConnect, KExec, KCopy, KLog, KFinish})
     (copy_node_data w conn snapshot)"
  unfolding copy_node_data_def do_PQexec_def
  by (intro emits_bindE emits_if emits_weaken [OF emits_pg_connect]
      emits_weaken [OF emits_start_copy_origin_tx] emits_weaken [OF emits_get_copy_tables]
      emits_weaken [OF emits_start_copy_target_tx] emits_weaken [OF emits_copy_tables])
    auto

lemma emits_ensure_replication_slot_snapshot:
  "emits (\<lambda>ev. kind_of ev = KExec) (ensure_replication_slot_snapshot w c slot)"
  unfolding ensure_replication_slot_snapshot_def Let_def do_PQexec_def
  by (intro emits_bindE emits_if) (auto split: option.splits sum.splits)

lemma emits_ensure_replication_origin:
  "emits (\<lambda>ev. kind_of ev = KOrigin) (ensure_replication_origin w slot)"
  unfolding ensure_replication_origin_def
  by (intro emits_bindE emits_if) auto

lemma emits_init_transaction:
  "emits (\<lambda>ev. kind_of ev \<in> {KLog, KTx, KConnect, KExec, KOrigin}) (init_transaction w conn)"
  unfolding init_transaction_def Let_def
  by (intro emits_bindE emits_prod emits_weaken [OF emits_pg_connect_replica]
      emits_weaken [OF emits_ensure_replication_slot_snapshot]
      emits_weaken [OF emits_ensure_replication_origin])
    auto

lemma persists_sync_schema:
  "persists [NODE_STATUS_SYNC_SCHEMA, NODE_STATUS_SLOTS] (\<lambda>st. st = NODE_STATUS_SLOTS)
     (sync_schema w conn snapshot)"
  unfolding sync_schema_def
  by (intro persists_set persists_ret refl persists_quiet
      emits_weaken [OF emits_dump_structure] emits_weaken [OF emits_restore_structure]
      emits_weaken [OF emits_copy_node_data])
    auto

lemma emits_role_check:
  "emits P (case role of NODE_ROLE_SUBSCRIBER \<Rightarrow> ret ()
            | NODE_ROLE_OTHER c \<Rightarrow> elog ERROR msg)"
  by (cases role) simp_all

lemma persists_later_phases:
  "status0 \<noteq> NODE_STATUS_INIT \<Longrightarrow>
   persists (following status0) (\<lambda>u. True) (later_phases w conn status0)"
  apply (cases status0;
      simp only: later_phases_def Let_def bindE_assoc bindE_ret_fun node_status.simps
        if_True if_False following.simps simp_thms)
  apply (intro persists_set persists_quiet persists_quiet_last persists_ret TrueI
      emits_role_check emits_weaken [OF emits_pg_connect]; simp add: set_remote_node_status_def)+
  done


lemma persists_eq: "persists S R m \<Longrightarrow> S = S' \<Longrightarrow> persists S' R m"
  by simp

lemma persists_init_replica:
  "persists (following (node_status (target conn))) (\<lambda>u. True) (pglogical_init_replica w conn)"
proof (cases "node_status (target conn) \<in> {NODE_STATUS_INIT, NODE_STATUS_SLOTS,
    NODE_STATUS_CATCHUP, NODE_STATUS_CONNECT_BACK}")
  case False
  then have "pglogical_init_replica w conn = raise (Ereport ERROR
      ''node initialization failed during nonrecoverable step, please try the setup again''
      None)"
    by (intro ext) (simp add: init_replica_nonrecoverable)
  then show ?thesis by (simp add: persists_raise)
next
  case True
  show ?thesis
  proof (cases "node_status (target conn) = NODE_STATUS_INIT")
    case init: True
    have "persists ([NODE_STATUS_SYNC_SCHEMA, NODE_STATUS_SLOTS] @ following NODE_STATUS_SLOTS)
        (\<lambda>u. True) (bindE (bindE (init_transaction w conn) (sync_schema w conn))
          (later_phases w conn))"
      by (intro persists_bindE [where ?R1.0 = "\<lambda>st. st = NODE_STATUS_SLOTS"] persists_quiet
          persists_sync_schema emits_weaken [OF emits_init_transaction])
        (use persists_later_phases [of NODE_STATUS_SLOTS w conn] in auto)
    with init show ?thesis
      by (simp add: pglogical_init_replica_phases entry_check_def)
  next
    case False
    with True have "pglogical_init_replica w conn
        = later_phases w conn (node_status (target conn))"
      by (auto simp: pglogical_init_replica_phases entry_check_def)
    with False show ?thesis by (simp add: persists_later_phases)
  qed
qed

lemma sorted_following: "sorted_wrt status_before (st # following st)"
  by (cases st) (simp_all add: status_before_def)

text \<open>
  C8. In every run of \<open>pglogical_init_replica\<close>, finished or ended by an error, the
  status on entry followed by the statuses persisted, in the order of the calls of
  \<open>set_node_status\<close>, is strictly increasing in the order of the statuses; more
  precisely the statuses persisted are an initial segment of those that follow the
  status on entry.
\<close>

theorem persisted_statuses_increase:
  assumes "pglogical_init_replica w conn h = (evs, r)"
  shows "sorted_wrt status_before (node_status (target conn) # persisted evs)
       \<and> prefix (persisted evs) (following (node_status (target conn)))"
proof -
  from persists_init_replica [of conn w] assms
  have pre: "prefix (persisted evs) (following (node_status (target conn)))"
    by (auto simp: persists_def dest: spec [of _ h])
  then obtain zs where "following (node_status (target conn)) = persisted evs @ zs"
    by (auto simp: prefix_def)
  with sorted_following [of "node_status (target conn)"]
  have "sorted_wrt status_before (node_status (target conn) # persisted evs)"
    by (simp add: sorted_wrt_append)
  with pre show ?thesis by simp
qed


lemmas run_eval = pglogical_init_replica_def dump_structure_def restore_structure_def
  dump_command_def restore_command_def
  find_other_exec_version_def scan_defs pg_connect_replica_def
  ensure_replication_slot_snapshot_def ensure_replication_origin_def InvalidRepOriginId_def
  make_other_slots_def set_node_status_def set_remote_node_status_def copy_node_data_eval
  world0_simps conn0_def origin0_def target0_def bindE_apply

lemma world0_run: "pglogical_init_replica world0 conn0 [] = (world0_trace, Inr ())"
  by (simp add: run_eval world0_trace_def del: bindE_emit bindE_call bindE_const_Inr)

lemma world0_run_persisted:
  "persisted (fst (pglogical_init_replica world0 conn0 [])) =
     [NODE_STATUS_SYNC_SCHEMA, NODE_STATUS_SLOTS, NODE_STATUS_CATCHUP,
      NODE_STATUS_CONNECT_BACK, NODE_STATUS_READY]"
  by (simp add: world0_run world0_trace_def)

theorem persisted_statuses_increase_witness:
  "persisted (fst (pglogical_init_replica world0 conn0 [])) =
     [NODE_STATUS_SYNC_SCHEMA, NODE_STATUS_SLOTS, NODE_STATUS_CATCHUP,
      NODE_STATUS_CONNECT_BACK, NODE_STATUS_READY]
   \<and> sorted_wrt status_before
        (NODE_STATUS_INIT # persisted (fst (pglogical_init_replica world0 conn0 [])))"
  using persisted_statuses_increase [where w = world0 and conn = conn0 and h = "[]",
      OF surjective_pairing]
    world0_run_persisted
  by (simp add: conn0_def target0_def)

subsection \<open>The transaction of the INIT phase and the order of the schema synchronisation\<close>

lemma bindE_emit_cases:
  assumes "bindE (emit ev) f h = (evs, r)"
  obtains (emitted) e2 where "f () (h @ [ev]) = (e2, r)" and "evs = ev # e2"
  using assms by (auto simp: bindE_def split: prod.splits)

lemma dump_structure_done:
  assumes "dump_structure w conn snapshot h = (e, Inr u)"
  shows "\<exists>a tool. e = a @ [EvSystem (dump_command tool snapshot conn) 0]
          \<and> list_all (\<lambda>ev. kind_of ev = KTool) a"
  using assms unfolding dump_structure_def Let_def
proof (cases rule: bindE_cases)
  case (failed x)
  then show ?thesis by simp
next
  case (passed e1 found e2)
  from emitsD [OF emits_find_other_exec_version passed(1)]
  have "list_all (\<lambda>ev. kind_of ev = KTool) e1" .
  with passed(2,3) show ?thesis
    by (auto split: sum.splits prod.splits if_splits elim!: bindE_call_cases)
qed

lemma restore_structure_done:
  assumes "restore_structure w conn sec h = (e, Inr u)"
  shows "\<exists>a tool. e = a @ [EvSystem (restore_command tool sec conn) 0]
          \<and> list_all (\<lambda>ev. kind_of ev = KTool) a"
  using assms unfolding restore_structure_def Let_def
proof (cases rule: bindE_cases)
  case (failed x)
  then show ?thesis by simp
next
  case (passed e1 found e2)
  from emitsD [OF emits_find_other_exec_version passed(1)]
  have "list_all (\<lambda>ev. kind_of ev = KTool) e1" .
  with passed(2,3) show ?thesis
    by (auto split: sum.splits prod.splits if_splits elim!: bindE_call_cases)
qed

lemma pg_connect_replica_done:
  assumes "pg_connect_replica w connstring connname h = (e, Inr c)"
  shows "\<exists>dsn. e = [EvPQconnectdb dsn c True]"
  using assms unfolding pg_connect_replica_def Let_def
  by (auto elim!: bindE_call_cases split: prod.splits if_splits simp: bindE_assoc)

lemma ensure_replication_slot_snapshot_done:
  assumes "ensure_replication_slot_snapshot w c slot h = (e, Inr (snapshot, lsn))"
  shows "\<exists>res lsn_text. e = [EvPQexec c (''CREATE_REPLICATION_SLOT '' @ dq @ slot @ dq
             @ '' LOGICAL pg_logical_output'') res]
           \<and> PQgetvalue res 0 1 = Some lsn_text \<and> pg_lsn_in w lsn_text = Inr lsn
           \<and> PQgetvalue res 0 2 = Some snapshot"
  using assms unfolding ensure_replication_slot_snapshot_def Let_def do_PQexec_def
  by (auto elim!: bindE_call_cases split: prod.splits if_splits option.splits sum.splits)

lemma ensure_replication_origin_cases:
  assumes "ensure_replication_origin w slot h = (e, r)"
  shows "\<exists>oid. r = Inr oid \<and> (e = [EvReplorigin_by_name slot oid]
           \<or> e = [EvReplorigin_by_name slot InvalidRepOriginId, EvReplorigin_create slot oid])"
  using assms unfolding ensure_replication_origin_def
  by (auto elim!: bindE_call_cases split: if_splits)


lemma init_transaction_cases:
  assumes run: "init_transaction w conn h = (e, r)"
  shows "(EvCommitTransactionCommand \<notin> set e \<and> (\<exists>x. r = Inl x))
       \<or> (\<exists>dsn oc slot res lsn_text lsn snapshot org oid commit_end.
            e = [EvElog INFO ''initializing node'', EvStartTransactionCommand,
                 EvPQconnectdb dsn oc True,
                 EvPQexec oc (''CREATE_REPLICATION_SLOT '' @ dq @ slot @ dq
                   @ '' LOGICAL pg_logical_output'') res]
                @ org @ [EvReplorigin_advance oid lsn commit_end True True,
                         EvCommitTransactionCommand]
            \<and> PQgetvalue res 0 1 = Some lsn_text \<and> pg_lsn_in w lsn_text = Inr lsn
            \<and> PQgetvalue res 0 2 = Some snapshot
            \<and> (org = [EvReplorigin_by_name slot oid]
                \<or> org = [EvReplorigin_by_name slot InvalidRepOriginId,
                          EvReplorigin_create slot oid])
            \<and> r = Inr snapshot)"
  using run unfolding init_transaction_def Let_def elog_simps
proof (cases rule: bindE_emit_cases)
  case (emitted e2)
  note info = emitted
  from info(1) show ?thesis
  proof (cases rule: bindE_emit_cases)
    case (emitted e3)
    note start = emitted
    from start(1) show ?thesis
    proof (cases rule: bindE_call_cases)
      case (called e4)
      note dbname = called
      from dbname(1) show ?thesis
      proof (cases rule: bindE_cases)
        case (failed x)
        from emitsD [OF emits_pg_connect_replica failed(1)] failed(2) show ?thesis
          by (auto simp: info(2) start(2) dbname(2) list_all_iff)
      next
        case (passed e5 oc e6)
        note connect = passed
        from pg_connect_replica_done [OF connect(1)]
        obtain dsn where e5: "e5 = [EvPQconnectdb dsn oc True]" by blast
        from connect(2) show ?thesis
        proof (cases rule: bindE_cases)
          case (failed x)
          from emitsD [OF emits_ensure_replication_slot_snapshot failed(1)] failed(2)
          show ?thesis
            by (auto simp: info(2) start(2) dbname(2) connect(3) e5 list_all_iff)
        next
          case (passed e7 sl e8)
          note slot = passed
          obtain snapshot lsn where sl: "sl = (snapshot, lsn)" by (cases sl)
          from ensure_replication_slot_snapshot_done [OF slot(1) [unfolded sl]]
          obtain res lsn_text where e7: "e7 = [EvPQexec oc (''CREATE_REPLICATION_SLOT '' @ dq
                @ gen_slot_name w (get_database_name w (h @ [EvElog INFO ''initializing node'',
                     EvStartTransactionCommand])) (origin conn) (target conn) @ dq
                @ '' LOGICAL pg_logical_output'') res]"
            and lsn: "PQgetvalue res 0 1 = Some lsn_text" "pg_lsn_in w lsn_text = Inr lsn"
              "PQgetvalue res 0 2 = Some snapshot"
            by auto
          from slot(2) [unfolded sl prod.case] show ?thesis
          proof (cases rule: bindE_cases)
            case (failed x)
            from ensure_replication_origin_cases [OF failed(1)] show ?thesis by simp
          next
            case (passed e9 oid e10)
            from ensure_replication_origin_cases [OF passed(1)] passed(2) lsn show ?thesis
              by (auto simp: info(2) start(2) dbname(2) connect(3) e5 slot(3) e7 passed(3))
          qed
        qed
      qed
    qed
  qed
qed


lemma emits_sync_schema:
  "emits (\<lambda>ev. kind_of ev \<in> {KStatus, KLog, KTool, KSystem, KConnect, KExec, KCopy, KFinish})
     (sync_schema w conn snapshot)"
  unfolding sync_schema_def set_node_status_def elog_simps
  by (intro emits_bindE emits_weaken [OF emits_dump_structure]
      emits_weaken [OF emits_restore_structure] emits_weaken [OF emits_copy_node_data])
    auto

lemma emits_later_phases:
  "emits (\<lambda>ev. kind_of ev \<in> {KStatus, KLog, KConnect, KRemote, KFinish})
     (later_phases w conn status0)"
  unfolding later_phases_def set_node_status_def set_remote_node_status_def Let_def elog_simps
  by (intro emits_bindE emits_if emits_weaken [OF emits_pg_connect])
    (auto split: node_role.splits)

lemma later_phases_no_slots:
  "emits (\<lambda>ev. \<forall>i. ev \<noteq> EvSet_node_status i NODE_STATUS_SLOTS) (later_phases w conn status0)"
  unfolding later_phases_def set_node_status_def set_remote_node_status_def Let_def elog_simps
  by (intro emits_bindE emits_if emits_weaken [OF emits_pg_connect])
    (auto split: node_role.splits)

lemma sync_schema_cases:
  assumes run: "sync_schema w conn snapshot h = (e, r)"
  shows "((\<forall>i. EvSet_node_status i NODE_STATUS_SLOTS \<notin> set e) \<and> (\<exists>x. r = Inl x))
       \<or> (\<exists>a dump_tool b pre_tool c d post_tool.
            e = [EvSet_node_status (node_id (target conn)) NODE_STATUS_SYNC_SCHEMA,
                 EvElog INFO ''synchronizing schemas'']
                @ a @ [EvSystem (dump_command dump_tool snapshot conn) 0]
                @ b @ [EvSystem (restore_command pre_tool ''pre-data'' conn) 0]
                @ c
                @ d @ [EvSystem (restore_command post_tool ''post-data'' conn) 0,
                  EvSet_node_status (node_id (target conn)) NODE_STATUS_SLOTS]
            \<and> list_all (\<lambda>ev. kind_of ev = KTool) (a @ b @ d)
            \<and> copy_node_data w conn snapshot
                 (h @ [EvSet_node_status (node_id (target conn)) NODE_STATUS_SYNC_SCHEMA,
                       EvElog INFO ''synchronizing schemas'']
                  @ a @ [EvSystem (dump_command dump_tool snapshot conn) 0]
                  @ b @ [EvSystem (restore_command pre_tool ''pre-data'' conn) 0]) = (c, Inr ())
            \<and> r = Inr NODE_STATUS_SLOTS)"
  using run unfolding sync_schema_def set_node_status_def elog_simps
proof (cases rule: bindE_emit_cases)
  case (emitted e2)
  note sync = emitted
  from sync(1) show ?thesis
  proof (cases rule: bindE_emit_cases)
    case (emitted e3)
    note info = emitted
    from info(1) show ?thesis
    proof (cases rule: bindE_cases)
      case (failed x)
      from emitsD [OF emits_dump_structure failed(1)] failed(2) show ?thesis
        by (auto simp: sync(2) info(2) list_all_iff)
    next
      case (passed a u e4)
      note dump = passed
      note ka = emitsD [OF emits_dump_structure dump(1)]
      from dump(2) show ?thesis
      proof (cases rule: bindE_cases)
        case (failed x)
        from emitsD [OF emits_restore_structure failed(1)] failed(2) ka show ?thesis
          by (auto simp: sync(2) info(2) dump(3) list_all_iff)
      next
        case (passed b u2 e5)
        note pre = passed
        note kb = emitsD [OF emits_restore_structure pre(1)]
        from pre(2) show ?thesis
        proof (cases rule: bindE_cases)
          case (failed x)
          from emitsD [OF emits_copy_node_data failed(1)] failed(2) ka kb show ?thesis
            by (auto simp: sync(2) info(2) dump(3) pre(3) list_all_iff)
        next
          case (passed c u3 e6)
          note copy = passed
          note kc = emitsD [OF emits_copy_node_data copy(1)]
          from copy(2) show ?thesis
          proof (cases rule: bindE_cases)
            case (failed x)
            from emitsD [OF emits_restore_structure failed(1)] failed(2) ka kb kc show ?thesis
              by (auto simp: sync(2) info(2) dump(3) pre(3) copy(3) list_all_iff)
          next
            case (passed d u4 e7)
            note post = passed
            from dump_structure_done [OF dump(1)] obtain a' dump_tool where
              a: "a = a' @ [EvSystem (dump_command dump_tool snapshot conn) 0]"
              and ka': "list_all (\<lambda>ev. kind_of ev = KTool) a'" by blast
            from restore_structure_done [OF pre(1)] obtain b' pre_tool where
              b: "b = b' @ [EvSystem (restore_command pre_tool ''pre-data'' conn) 0]"
              and kb': "list_all (\<lambda>ev. kind_of ev = KTool) b'" by blast
            from restore_structure_done [OF post(1)] obtain d' post_tool where
              d: "d = d' @ [EvSystem (restore_command post_tool ''post-data'' conn) 0]"
              and kd': "list_all (\<lambda>ev. kind_of ev = KTool) d'" by blast
            from post(2) have e7: "e7 = [EvSet_node_status (node_id (target conn))
                NODE_STATUS_SLOTS]" and r: "r = Inr NODE_STATUS_SLOTS"
              by auto
            have "e = [EvSet_node_status (node_id (target conn)) NODE_STATUS_SYNC_SCHEMA,
                 EvElog INFO ''synchronizing schemas'']
                @ a' @ [EvSystem (dump_command dump_tool snapshot conn) 0]
                @ b' @ [EvSystem (restore_command pre_tool ''pre-data'' conn) 0]
                @ c
                @ d' @ [EvSystem (restore_command post_tool ''post-data'' conn) 0,
                  EvSet_node_status (node_id (target conn)) NODE_STATUS_SLOTS]"
              by (simp add: sync(2) info(2) dump(3) pre(3) copy(3) post(3) a b d e7)
            moreover from ka' kb' kd' have "list_all (\<lambda>ev. kind_of ev = KTool) (a' @ b' @ d')"
              by simp
            moreover from copy(1) have "copy_node_data w conn snapshot
                 (h @ [EvSet_node_status (node_id (target conn)) NODE_STATUS_SYNC_SCHEMA,
                       EvElog INFO ''synchronizing schemas'']
                  @ a' @ [EvSystem (dump_command dump_tool snapshot conn) 0]
                  @ b' @ [EvSystem (restore_command pre_tool ''pre-data'' conn) 0]) = (c, Inr ())"
              by (simp add: a b)
            ultimately show ?thesis using r by blast
          qed
        qed
      qed
    qed
  qed
qed


lemma init_replica_shape:
  assumes run: "pglogical_init_replica w conn h = (evs, r)"
  obtains (quiet) "list_all (\<lambda>ev. kind_of ev \<in> {KStatus, KLog, KConnect, KRemote, KFinish}) evs"
      and "list_all (\<lambda>ev. \<forall>i. ev \<noteq> EvSet_node_status i NODE_STATUS_SLOTS) evs"
    | (tx_failed) x where "init_transaction w conn h = (evs, Inl x)"
    | (sync_failed) e1 snapshot e2 x where "init_transaction w conn h = (e1, Inr snapshot)"
      and "sync_schema w conn snapshot (h @ e1) = (e2, Inl x)" and "evs = e1 @ e2"
    | (synced) e1 snapshot e2 st e3 where "init_transaction w conn h = (e1, Inr snapshot)"
      and "sync_schema w conn snapshot (h @ e1) = (e2, Inr st)"
      and "later_phases w conn st (h @ e1 @ e2) = (e3, r)" and "evs = e1 @ e2 @ e3"
proof (cases "node_status (target conn) = NODE_STATUS_INIT")
  case False
  show ?thesis
  proof (cases "node_status (target conn) \<in> {NODE_STATUS_SLOTS, NODE_STATUS_CATCHUP,
      NODE_STATUS_CONNECT_BACK}")
    case True
    with False have "pglogical_init_replica w conn
        = later_phases w conn (node_status (target conn))"
      by (auto simp: pglogical_init_replica_phases entry_check_def)
    with run emitsD [OF emits_later_phases] emitsD [OF later_phases_no_slots]
    show ?thesis by (intro quiet) auto
  next
    case no: False
    with False run have "evs = []"
      by (simp add: init_replica_nonrecoverable)
    then show ?thesis by (intro quiet) simp_all
  qed
next
  case True
  with run have "bindE (init_transaction w conn) (\<lambda>snapshot.
      bindE (sync_schema w conn snapshot) (later_phases w conn)) h = (evs, r)"
    by (simp add: pglogical_init_replica_phases entry_check_def bindE_assoc)
  then show ?thesis
  proof (cases rule: bindE_cases)
    case (failed x)
    then show ?thesis by (intro tx_failed)
  next
    case (passed e1 snapshot e2)
    from passed(2) show ?thesis
    proof (cases rule: bindE_cases)
      case (failed x)
      with passed show ?thesis by (intro sync_failed) auto
    next
      case inner: (passed e2' st e3)
      with passed show ?thesis by (intro synced [of e1 snapshot e2' st e3]) auto
    qed
  qed
qed


lemma init_transaction_done:
  assumes "init_transaction w conn h = (e1, Inr snapshot)"
  obtains dsn oc slot res lsn_text lsn org oid commit_end where
    "e1 = [EvElog INFO ''initializing node'', EvStartTransactionCommand,
           EvPQconnectdb dsn oc True,
           EvPQexec oc (''CREATE_REPLICATION_SLOT '' @ dq @ slot @ dq
             @ '' LOGICAL pg_logical_output'') res]
          @ org @ [EvReplorigin_advance oid lsn commit_end True True,
                   EvCommitTransactionCommand]"
    and "PQgetvalue res 0 1 = Some lsn_text" and "pg_lsn_in w lsn_text = Inr lsn"
    and "org = [EvReplorigin_by_name slot oid]
         \<or> org = [EvReplorigin_by_name slot InvalidRepOriginId, EvReplorigin_create slot oid]"
  using init_transaction_cases [OF assms] by auto

lemma committed_shape:
  assumes tx: "init_transaction w conn h = (e1, Inr snapshot)"
    and rest: "list_all (\<lambda>ev. kind_of ev \<noteq> KTx \<and> kind_of ev \<noteq> KOrigin) rest"
  shows "\<exists>dsn oc slot res lsn_text lsn org oid commit_end rest'.
      e1 @ rest = [EvElog INFO ''initializing node'', EvStartTransactionCommand,
             EvPQconnectdb dsn oc True,
             EvPQexec oc (''CREATE_REPLICATION_SLOT '' @ dq @ slot @ dq
               @ '' LOGICAL pg_logical_output'') res]
            @ org @ [EvReplorigin_advance oid lsn commit_end True True,
                     EvCommitTransactionCommand] @ rest'
      \<and> PQgetvalue res 0 1 = Some lsn_text \<and> pg_lsn_in w lsn_text = Inr lsn
      \<and> (org = [EvReplorigin_by_name slot oid]
          \<or> org = [EvReplorigin_by_name slot InvalidRepOriginId, EvReplorigin_create slot oid])
      \<and> list_all (\<lambda>ev. kind_of ev \<noteq> KTx \<and> kind_of ev \<noteq> KOrigin) rest'"
proof -
  from tx obtain dsn oc slot res lsn_text lsn org oid commit_end where
    e1: "e1 = [EvElog INFO ''initializing node'', EvStartTransactionCommand,
           EvPQconnectdb dsn oc True,
           EvPQexec oc (''CREATE_REPLICATION_SLOT '' @ dq @ slot @ dq
             @ '' LOGICAL pg_logical_output'') res]
          @ org @ [EvReplorigin_advance oid lsn commit_end True True,
                   EvCommitTransactionCommand]"
    and lsn: "PQgetvalue res 0 1 = Some lsn_text" "pg_lsn_in w lsn_text = Inr lsn"
    and org: "org = [EvReplorigin_by_name slot oid]
         \<or> org = [EvReplorigin_by_name slot InvalidRepOriginId, EvReplorigin_create slot oid]"
    by (rule init_transaction_done)
  have "e1 @ rest = [EvElog INFO ''initializing node'', EvStartTransactionCommand,
             EvPQconnectdb dsn oc True,
             EvPQexec oc (''CREATE_REPLICATION_SLOT '' @ dq @ slot @ dq
               @ '' LOGICAL pg_logical_output'') res]
            @ org @ [EvReplorigin_advance oid lsn commit_end True True,
                     EvCommitTransactionCommand] @ rest"
    by (simp add: e1)
  with lsn org rest show ?thesis by blast
qed

text \<open>
  C7. In every run that reaches \<open>CommitTransactionCommand\<close>, that is, that completes
  the slot and origin part of the \<open>INIT\<close> phase, the events start with: the notice,
  \<open>StartTransactionCommand\<close>, the replication connection to the origin, the
  \<open>CREATE_REPLICATION_SLOT\<close> command on it, the lookup of the replication origin of
  the slot's name and, when there is none, its creation, \<open>replorigin_advance\<close> of
  that origin to the LSN that \<open>pg_lsn_in\<close> reads from field 1 of the first row of
  the command's result, and \<open>CommitTransactionCommand\<close>. No other event of the run
  starts or commits a transaction or touches a replication origin: the advance to
  that LSN is the only one.
\<close>

theorem origin_advanced_to_slot_lsn:
  assumes run: "pglogical_init_replica w conn h = (evs, r)"
    and committed: "EvCommitTransactionCommand \<in> set evs"
  shows "\<exists>dsn oc slot res lsn_text lsn org oid commit_end rest.
      evs = [EvElog INFO ''initializing node'', EvStartTransactionCommand,
             EvPQconnectdb dsn oc True,
             EvPQexec oc (''CREATE_REPLICATION_SLOT '' @ dq @ slot @ dq
               @ '' LOGICAL pg_logical_output'') res]
            @ org @ [EvReplorigin_advance oid lsn commit_end True True,
                     EvCommitTransactionCommand] @ rest
      \<and> PQgetvalue res 0 1 = Some lsn_text \<and> pg_lsn_in w lsn_text = Inr lsn
      \<and> (org = [EvReplorigin_by_name slot oid]
          \<or> org = [EvReplorigin_by_name slot InvalidRepOriginId, EvReplorigin_create slot oid])
      \<and> list_all (\<lambda>ev. kind_of ev \<noteq> KTx \<and> kind_of ev \<noteq> KOrigin) rest"
  using run
proof (cases rule: init_replica_shape)
  case quiet
  with committed show ?thesis by (auto simp: list_all_iff)
next
  case (tx_failed x)
  from init_transaction_cases [OF tx_failed] committed show ?thesis by auto
next
  case (sync_failed e1 snapshot e2 x)
  from emitsD [OF emits_sync_schema sync_failed(2)]
  have "list_all (\<lambda>ev. kind_of ev \<noteq> KTx \<and> kind_of ev \<noteq> KOrigin) e2"
    by (auto simp: list_all_iff)
  from committed_shape [OF sync_failed(1) this] show ?thesis
    by (simp only: sync_failed(3))
next
  case (synced e1 snapshot e2 st e3)
  from emitsD [OF emits_sync_schema synced(2)] emitsD [OF emits_later_phases synced(3)]
  have "list_all (\<lambda>ev. kind_of ev \<noteq> KTx \<and> kind_of ev \<noteq> KOrigin) (e2 @ e3)"
    by (auto simp: list_all_iff)
  from committed_shape [OF synced(1) this] show ?thesis
    by (simp only: synced(4))
qed

theorem origin_advanced_to_slot_lsn_witness:
  "EvCommitTransactionCommand \<in> set (fst (pglogical_init_replica world0 conn0 []))
   \<and> EvReplorigin_advance 1 0x16B3748 0 True True
       \<in> set (fst (pglogical_init_replica world0 conn0 []))
   \<and> pg_lsn_in world0 ''0/16B3748'' = Inr 0x16B3748
   \<and> (\<exists>dsn oc slot res lsn_text lsn org oid commit_end rest.
      fst (pglogical_init_replica world0 conn0 []) =
            [EvElog INFO ''initializing node'', EvStartTransactionCommand,
             EvPQconnectdb dsn oc True,
             EvPQexec oc (''CREATE_REPLICATION_SLOT '' @ dq @ slot @ dq
               @ '' LOGICAL pg_logical_output'') res]
            @ org @ [EvReplorigin_advance oid lsn commit_end True True,
                     EvCommitTransactionCommand] @ rest
      \<and> PQgetvalue res 0 1 = Some lsn_text \<and> pg_lsn_in world0 lsn_text = Inr lsn
      \<and> (org = [EvReplorigin_by_name slot oid]
          \<or> org = [EvReplorigin_by_name slot InvalidRepOriginId, EvReplorigin_create slot oid])
      \<and> list_all (\<lambda>ev. kind_of ev \<noteq> KTx \<and> kind_of ev \<noteq> KOrigin) rest)"
proof -
  have committed: "EvCommitTransactionCommand
      \<in> set (fst (pglogical_init_replica world0 conn0 []))"
    and advanced: "EvReplorigin_advance 1 0x16B3748 0 True True
      \<in> set (fst (pglogical_init_replica world0 conn0 []))"
    by (simp_all add: world0_run world0_trace_def)
  have lsn: "pg_lsn_in world0 ''0/16B3748'' = Inr 0x16B3748"
    by (simp add: world0_def)
  from origin_advanced_to_slot_lsn [where w = world0 and conn = conn0 and h = "[]",
      OF surjective_pairing committed] committed advanced lsn
  show ?thesis by (intro conjI)
qed

text \<open>
  C3. In every run that persists \<open>SLOTS\<close>, the events are, in this order: events
  that run no command and copy nothing; the \<open>system\<close> call of the dump command
  with the snapshot, returning 0; the location of the restore tool; the \<open>system\<close>
  call of the restore of the section \<open>pre-data\<close>, returning 0; the events of a run
  of \<open>copy_node_data\<close> that returned normally, with that snapshot; the location of
  the restore tool; the \<open>system\<close> call of the restore of the section \<open>post-data\<close>,
  returning 0; \<open>set_node_status\<close> of \<open>SLOTS\<close>; and events that run no command and
  copy nothing. So every event of the row copy is after the restore of \<open>pre-data\<close>
  and before the restore of \<open>post-data\<close>, and \<open>SLOTS\<close> is persisted after all of
  them.
\<close>

theorem sync_schema_steps_in_order:
  assumes run: "pglogical_init_replica w conn h = (evs, r)"
    and slots: "EvSet_node_status i NODE_STATUS_SLOTS \<in> set evs"
  shows "\<exists>before a dump_tool b pre_tool c d post_tool rest snapshot.
      evs = before
            @ a @ [EvSystem (dump_command dump_tool snapshot conn) 0]
            @ b @ [EvSystem (restore_command pre_tool ''pre-data'' conn) 0]
            @ c
            @ d @ [EvSystem (restore_command post_tool ''post-data'' conn) 0,
                   EvSet_node_status (node_id (target conn)) NODE_STATUS_SLOTS]
            @ rest
      \<and> copy_node_data w conn snapshot
            (h @ before
             @ a @ [EvSystem (dump_command dump_tool snapshot conn) 0]
             @ b @ [EvSystem (restore_command pre_tool ''pre-data'' conn) 0]) = (c, Inr ())
      \<and> list_all (\<lambda>ev. kind_of ev \<noteq> KSystem \<and> kind_of ev \<noteq> KCopy) (before @ a @ b @ d @ rest)
      \<and> list_all (\<lambda>ev. kind_of ev \<noteq> KSystem) c"
  using run
proof (cases rule: init_replica_shape)
  case quiet
  with slots show ?thesis by (auto simp: list_all_iff)
next
  case (tx_failed x)
  from emitsD [OF emits_init_transaction tx_failed] slots show ?thesis
    by (auto simp: list_all_iff)
next
  case (sync_failed e1 snapshot e2 x)
  from emitsD [OF emits_init_transaction sync_failed(1)] sync_schema_cases [OF sync_failed(2)]
    slots sync_failed(3)
  show ?thesis by (auto simp: list_all_iff)
next
  case (synced e1 snapshot e2 st e3)
  from emitsD [OF emits_init_transaction synced(1)]
  have k1: "list_all (\<lambda>ev. kind_of ev \<noteq> KSystem \<and> kind_of ev \<noteq> KCopy) e1"
    by (auto simp: list_all_iff)
  from emitsD [OF emits_later_phases synced(3)]
  have k3: "list_all (\<lambda>ev. kind_of ev \<noteq> KSystem \<and> kind_of ev \<noteq> KCopy) e3"
    by (auto simp: list_all_iff)
  from sync_schema_cases [OF synced(2)] obtain a dump_tool b pre_tool c d post_tool where
    e2: "e2 = [EvSet_node_status (node_id (target conn)) NODE_STATUS_SYNC_SCHEMA,
                 EvElog INFO ''synchronizing schemas'']
                @ a @ [EvSystem (dump_command dump_tool snapshot conn) 0]
                @ b @ [EvSystem (restore_command pre_tool ''pre-data'' conn) 0]
                @ c
                @ d @ [EvSystem (restore_command post_tool ''post-data'' conn) 0,
                  EvSet_node_status (node_id (target conn)) NODE_STATUS_SLOTS]"
    and tools: "list_all (\<lambda>ev. kind_of ev = KTool) (a @ b @ d)"
    and copy: "copy_node_data w conn snapshot
                 ((h @ e1) @ [EvSet_node_status (node_id (target conn)) NODE_STATUS_SYNC_SCHEMA,
                       EvElog INFO ''synchronizing schemas'']
                  @ a @ [EvSystem (dump_command dump_tool snapshot conn) 0]
                  @ b @ [EvSystem (restore_command pre_tool ''pre-data'' conn) 0]) = (c, Inr ())"
    by auto
  from emitsD [OF emits_copy_node_data copy]
  have kc: "list_all (\<lambda>ev. kind_of ev \<noteq> KSystem) c"
    by (auto simp: list_all_iff)
  let ?before = "e1 @ [EvSet_node_status (node_id (target conn)) NODE_STATUS_SYNC_SCHEMA,
                 EvElog INFO ''synchronizing schemas'']"
  have "evs = ?before
            @ a @ [EvSystem (dump_command dump_tool snapshot conn) 0]
            @ b @ [EvSystem (restore_command pre_tool ''pre-data'' conn) 0]
            @ c
            @ d @ [EvSystem (restore_command post_tool ''post-data'' conn) 0,
                   EvSet_node_status (node_id (target conn)) NODE_STATUS_SLOTS]
            @ e3"
    by (simp add: synced(4) e2)
  moreover from copy have "copy_node_data w conn snapshot
            (h @ ?before
             @ a @ [EvSystem (dump_command dump_tool snapshot conn) 0]
             @ b @ [EvSystem (restore_command pre_tool ''pre-data'' conn) 0]) = (c, Inr ())"
    by simp
  moreover from k1 k3 tools
  have "list_all (\<lambda>ev. kind_of ev \<noteq> KSystem \<and> kind_of ev \<noteq> KCopy) (?before @ a @ b @ d @ e3)"
    by (auto simp: list_all_iff)
  ultimately show ?thesis using kc by blast
qed


theorem sync_schema_steps_in_order_witness:
  "EvSet_node_status 2 NODE_STATUS_SLOTS \<in> set (fst (pglogical_init_replica world0 conn0 []))
   \<and> (\<exists>before a dump_tool b pre_tool c d post_tool rest snapshot.
      fst (pglogical_init_replica world0 conn0 []) = before
            @ a @ [EvSystem (dump_command dump_tool snapshot conn0) 0]
            @ b @ [EvSystem (restore_command pre_tool ''pre-data'' conn0) 0]
            @ c
            @ d @ [EvSystem (restore_command post_tool ''post-data'' conn0) 0,
                   EvSet_node_status (node_id (target conn0)) NODE_STATUS_SLOTS]
            @ rest
      \<and> copy_node_data world0 conn0 snapshot
            ([] @ before
             @ a @ [EvSystem (dump_command dump_tool snapshot conn0) 0]
             @ b @ [EvSystem (restore_command pre_tool ''pre-data'' conn0) 0]) = (c, Inr ())
      \<and> list_all (\<lambda>ev. kind_of ev \<noteq> KSystem \<and> kind_of ev \<noteq> KCopy) (before @ a @ b @ d @ rest)
      \<and> list_all (\<lambda>ev. kind_of ev \<noteq> KSystem) c)"
proof -
  have slots: "EvSet_node_status 2 NODE_STATUS_SLOTS
      \<in> set (fst (pglogical_init_replica world0 conn0 []))"
    by (simp add: world0_run world0_trace_def)
  from sync_schema_steps_in_order [where w = world0 and conn = conn0 and h = "[]",
      OF surjective_pairing slots] slots
  show ?thesis by (intro conjI)
qed


end
